theory Spec2Isabelle
  imports Complex_Main "HOL-Library.Multiset"
begin

section \<open>JavaScript values\<close>

text \<open>
  The rule engine (\<^verbatim>\<open>src/rules/engine.js\<close>) and the decision service
  (\<^verbatim>\<open>src/decisionService.js\<close>) work on untyped data: the parsed YAML
  configuration and the parsed JSON request body. The embedding keeps that data untyped.

  A number is an IEEE double. Every operation the program applies to numbers
  (\<^verbatim>\<open>===\<close>, the four ordering operators, the sign of a difference) only depends on the
  real number a double denotes, so a finite number is modelled by that value; the two
  zeros are one value, which all of these operations treat alike.
\<close>

datatype jsnum = NaN | NegInf | Fin rat | PosInf

text \<open>
  \<open>JBuiltin callable name\<close> stands for an object of the language runtime that data can
  reach through the prototype chain (\<^verbatim>\<open>x.constructor\<close>, \<^verbatim>\<open>x.toString\<close>,
  \<^verbatim>\<open>x.__proto__\<close>); it never occurs in a configuration or in a request.
  Strings are lists of code units. An object lists each of its keys once, in any order.
  The values are those of JSON documents; what only YAML can write (a timestamp, a binary
  scalar) has no counterpart here.
\<close>

datatype jsval =
    JUndefined
  | JNull
  | JBool bool
  | JNum jsnum
  | JStr string
  | JArr "jsval list"
  | JObj "(string \<times> jsval) list"
  | JBuiltin bool string

datatype js_error =
    TypeError string
  | SyntaxError string
  | IOError string
  | YAMLException string
  | Thrown string

fun message :: "js_error \<Rightarrow> string" where
  "message (TypeError m) = m"
| "message (SyntaxError m) = m"
| "message (IOError m) = m"
| "message (YAMLException m) = m"
| "message (Thrown m) = m"

text \<open>
  What the program takes from the language runtime and from its libraries, as parameters:
  the conversion of a string to a number and of a number to a string, the regular
  expression engine (a pattern gives its \<^verbatim>\<open>test\<close> function, or \<open>None\<close> when the
  constructor rejects it with a SyntaxError), the
  properties a value inherits from its prototype, the string a built-in object converts to,
  the result of calling a built-in as a plain function of two arguments (\<open>None\<close> when
  the call throws), and the order in which the engine's \<^verbatim>\<open>sort\<close> leaves an array when
  the comparator is not a consistent one, which the language leaves to the engine.

  Reading an inherited property gives \<open>JUndefined\<close> when the prototype chain has none of
  that name. It can also throw: \<^verbatim>\<open>caller\<close> and \<^verbatim>\<open>arguments\<close>, which every built-in
  function inherits from \<^verbatim>\<open>Function.prototype\<close>, are accessors that throw a TypeError.
\<close>

record js_runtime =
  string_to_number :: "string \<Rightarrow> jsnum"
  number_to_string :: "jsnum \<Rightarrow> string"
  new_RegExp :: "string \<Rightarrow> (string \<Rightarrow> bool) option"
  inherited :: "jsval \<Rightarrow> string \<Rightarrow> js_error + jsval"
  builtin_string :: "string \<Rightarrow> string"
  builtin_call :: "string \<Rightarrow> jsval \<Rightarrow> jsval \<Rightarrow> jsval option"
  array_sort :: "(jsval \<Rightarrow> jsval \<Rightarrow> jsnum) \<Rightarrow> jsval list \<Rightarrow> jsval list"

subsection \<open>Sequencing of computations that may throw\<close>

fun and_then :: "'x + 'r \<Rightarrow> ('r \<Rightarrow> 'x + 's) \<Rightarrow> 'x + 's" where
  "and_then (Inl err) k = Inl err"
| "and_then (Inr r) k = k r"

text \<open>The results of a list of computations run from left to right: the first error wins.\<close>

fun run_all :: "('x + 'r) list \<Rightarrow> 'x + 'r list" where
  "run_all [] = Inr []"
| "run_all (Inl err # rest) = Inl err"
| "run_all (Inr r # rest) = and_then (run_all rest) (\<lambda>rs. Inr (r # rs))"

subsection \<open>Conversions and comparisons of the language\<close>

text \<open>ToBoolean: what \<^verbatim>\<open>!x\<close>, \<^verbatim>\<open>x && y\<close>, \<^verbatim>\<open>x || y\<close> and \<^verbatim>\<open>if (x)\<close> test.\<close>

fun truthy :: "jsval \<Rightarrow> bool" where
  "truthy JUndefined = False"
| "truthy JNull = False"
| "truthy (JBool b) = b"
| "truthy (JNum n) = (n \<noteq> NaN \<and> n \<noteq> Fin 0)"
| "truthy (JStr s) = (s \<noteq> [])"
| "truthy (JArr xs) = True"
| "truthy (JObj kvs) = True"
| "truthy (JBuiltin c n) = True"

text \<open>\<^verbatim>\<open>typeof x === "object"\<close>: true of null, of arrays and of objects that are not callable.\<close>

fun typeof_object :: "jsval \<Rightarrow> bool" where
  "typeof_object JNull = True"
| "typeof_object (JArr xs) = True"
| "typeof_object (JObj kvs) = True"
| "typeof_object (JBuiltin c n) = (\<not> c)"
| "typeof_object v = False"

text \<open>
  \<^verbatim>\<open>a === b\<close>. Two objects are equal only when they are the same object. Every comparison
  in this program has its operands from different places (a value of the request against a
  value of the configuration, or a value against a literal), so two objects or arrays
  compared here are never the same one.
\<close>

fun strict_eq :: "jsval \<Rightarrow> jsval \<Rightarrow> bool" where
  "strict_eq JUndefined JUndefined = True"
| "strict_eq JNull JNull = True"
| "strict_eq (JBool a) (JBool b) = (a = b)"
| "strict_eq (JNum a) (JNum b) = (a \<noteq> NaN \<and> a = b)"
| "strict_eq (JStr a) (JStr b) = (a = b)"
| "strict_eq a b = False"

text \<open>SameValueZero, the comparison of \<^verbatim>\<open>Array.prototype.includes\<close>: NaN is found.\<close>

fun same_value_zero :: "jsval \<Rightarrow> jsval \<Rightarrow> bool" where
  "same_value_zero (JNum a) (JNum b) = (a = b)"
| "same_value_zero a b = strict_eq a b"

definition own_keys :: "(string \<times> jsval) list \<Rightarrow> string list" where
  "own_keys kvs = map fst kvs"

fun join_with :: "string \<Rightarrow> string list \<Rightarrow> string" where
  "join_with sep [] = []"
| "join_with sep [s] = s"
| "join_with sep (s # t # ss) = s @ sep @ join_with sep (t # ss)"

text \<open>
  \<^verbatim>\<open>String(x)\<close>. An array is joined with commas (null and undefined elements as the empty
  string). A plain object has \<^verbatim>\<open>Object.prototype.toString\<close>, unless it has a key
  \<^verbatim>\<open>toString\<close> of its own: parsed data holds no function, so the conversion then
  finds nothing to call and throws.
\<close>

fun js_String :: "js_runtime \<Rightarrow> jsval \<Rightarrow> js_error + string" where
  "js_String rt JUndefined = Inr ''undefined''"
| "js_String rt JNull = Inr ''null''"
| "js_String rt (JBool b) = Inr (if b then ''true'' else ''false'')"
| "js_String rt (JNum n) = Inr (number_to_string rt n)"
| "js_String rt (JStr s) = Inr s"
| "js_String rt (JArr xs) =
     (case run_all (map (\<lambda>x. if x = JUndefined \<or> x = JNull then Inr [] else js_String rt x) xs) of
        Inl e \<Rightarrow> Inl e
      | Inr ss \<Rightarrow> Inr (join_with '','' ss))"
| "js_String rt (JObj kvs) =
     (if ''toString'' \<in> set (own_keys kvs)
      then Inl (TypeError ''Cannot convert object to primitive value'')
      else Inr ''[object Object]'')"
| "js_String rt (JBuiltin c n) = Inr (builtin_string rt n)"

text \<open>ToPrimitive: primitives are themselves, everything else converts as \<open>js_String\<close> does.\<close>

fun to_primitive :: "js_runtime \<Rightarrow> jsval \<Rightarrow> js_error + jsval" where
  "to_primitive rt (JArr xs) = and_then (js_String rt (JArr xs)) (\<lambda>s. Inr (JStr s))"
| "to_primitive rt (JObj kvs) = and_then (js_String rt (JObj kvs)) (\<lambda>s. Inr (JStr s))"
| "to_primitive rt (JBuiltin c n) = Inr (JStr (builtin_string rt n))"
| "to_primitive rt v = Inr v"

text \<open>ToNumber of a primitive.\<close>

fun primitive_to_number :: "js_runtime \<Rightarrow> jsval \<Rightarrow> jsnum" where
  "primitive_to_number rt JUndefined = NaN"
| "primitive_to_number rt JNull = Fin 0"
| "primitive_to_number rt (JBool b) = (if b then Fin 1 else Fin 0)"
| "primitive_to_number rt (JNum n) = n"
| "primitive_to_number rt (JStr s) = string_to_number rt s"
| "primitive_to_number rt v = NaN"

definition to_number :: "js_runtime \<Rightarrow> jsval \<Rightarrow> js_error + jsnum" where
  "to_number rt v = and_then (to_primitive rt v) (\<lambda>p. Inr (primitive_to_number rt p))"

text \<open>The order of numbers: every comparison with NaN is false.\<close>

fun num_less :: "jsnum \<Rightarrow> jsnum \<Rightarrow> bool" where
  "num_less NaN b = False"
| "num_less a NaN = False"
| "num_less PosInf b = False"
| "num_less a NegInf = False"
| "num_less NegInf b = True"
| "num_less a PosInf = True"
| "num_less (Fin a) (Fin b) = (a < b)"

text \<open>
  The difference of two numbers. A double difference is rounded, but it has the sign of
  the exact difference and is zero only when the operands are equal; its sign is all that
  a sort comparator's caller reads.
\<close>

fun num_sub :: "jsnum \<Rightarrow> jsnum \<Rightarrow> jsnum" where
  "num_sub NaN b = NaN"
| "num_sub a NaN = NaN"
| "num_sub PosInf PosInf = NaN"
| "num_sub NegInf NegInf = NaN"
| "num_sub PosInf b = PosInf"
| "num_sub NegInf b = NegInf"
| "num_sub a PosInf = NegInf"
| "num_sub a NegInf = PosInf"
| "num_sub (Fin a) (Fin b) = Fin (a - b)"

text \<open>Strings are ordered code unit by code unit.\<close>

fun str_less :: "string \<Rightarrow> string \<Rightarrow> bool" where
  "str_less [] [] = False"
| "str_less [] (d # t) = True"
| "str_less (c # s) [] = False"
| "str_less (c # s) (d # t) =
     (if (of_char c :: nat) < of_char d then True
      else if (of_char d :: nat) < of_char c then False
      else str_less s t)"

text \<open>
  The abstract relational comparison \<^verbatim>\<open>x < y\<close> on primitives: \<open>None\<close> is its
  \<^verbatim>\<open>undefined\<close> answer, given when an operand converts to NaN.
\<close>

fun primitive_less :: "js_runtime \<Rightarrow> jsval \<Rightarrow> jsval \<Rightarrow> bool option" where
  "primitive_less rt (JStr a) (JStr b) = Some (str_less a b)"
| "primitive_less rt a b =
     (let na = primitive_to_number rt a; nb = primitive_to_number rt b
      in if na = NaN \<or> nb = NaN then None else Some (num_less na nb))"

text \<open>\<^verbatim>\<open>a < b\<close>, \<^verbatim>\<open>a > b\<close>, \<^verbatim>\<open>a <= b\<close>, \<^verbatim>\<open>a >= b\<close>: the left operand is converted first.\<close>

definition js_lt :: "js_runtime \<Rightarrow> jsval \<Rightarrow> jsval \<Rightarrow> js_error + bool" where
  "js_lt rt a b =
     and_then (to_primitive rt a) (\<lambda>pa. and_then (to_primitive rt b) (\<lambda>pb.
       Inr (primitive_less rt pa pb = Some True)))"

definition js_gt :: "js_runtime \<Rightarrow> jsval \<Rightarrow> jsval \<Rightarrow> js_error + bool" where
  "js_gt rt a b =
     and_then (to_primitive rt a) (\<lambda>pa. and_then (to_primitive rt b) (\<lambda>pb.
       Inr (primitive_less rt pb pa = Some True)))"

definition js_lte :: "js_runtime \<Rightarrow> jsval \<Rightarrow> jsval \<Rightarrow> js_error + bool" where
  "js_lte rt a b =
     and_then (to_primitive rt a) (\<lambda>pa. and_then (to_primitive rt b) (\<lambda>pb.
       Inr (primitive_less rt pb pa = Some False)))"

definition js_gte :: "js_runtime \<Rightarrow> jsval \<Rightarrow> jsval \<Rightarrow> js_error + bool" where
  "js_gte rt a b =
     and_then (to_primitive rt a) (\<lambda>pa. and_then (to_primitive rt b) (\<lambda>pb.
       Inr (primitive_less rt pa pb = Some False)))"

section \<open>Property access\<close>

text \<open>
  \<^verbatim>\<open>x.name\<close> for the property names the program itself writes (\<^verbatim>\<open>rules\<close>,
  \<^verbatim>\<open>defaults\<close>, \<^verbatim>\<open>id\<close>, \<^verbatim>\<open>condition\<close>, \<^verbatim>\<open>outcome\<close>, \<^verbatim>\<open>enabled\<close>,
  \<^verbatim>\<open>priority\<close>, \<^verbatim>\<open>name\<close>, \<^verbatim>\<open>operator\<close>, \<^verbatim>\<open>operands\<close>, \<^verbatim>\<open>field\<close>, \<^verbatim>\<open>op\<close>,
  \<^verbatim>\<open>value\<close>, \<^verbatim>\<open>no_match_outcome\<close>, \<^verbatim>\<open>request\<close>, \<^verbatim>\<open>signals\<close>, \<^verbatim>\<open>ai_config\<close>,
  \<^verbatim>\<open>metadata\<close>). None of them is a member of a built-in prototype, so such a read finds
  a key of the object itself or nothing. Reading a property of null or undefined throws.
\<close>

fun prop_of :: "jsval \<Rightarrow> string \<Rightarrow> jsval" where
  "prop_of (JObj kvs) k = (case map_of kvs k of Some v \<Rightarrow> v | None \<Rightarrow> JUndefined)"
| "prop_of v k = JUndefined"

definition nullish :: "jsval \<Rightarrow> bool" where
  "nullish v = (v = JUndefined \<or> v = JNull)"

text \<open>The message of the TypeError thrown when \<^verbatim>\<open>v.k\<close> is read from null or undefined.\<close>

definition cannot_read :: "jsval \<Rightarrow> string \<Rightarrow> js_error" where
  "cannot_read v k =
     TypeError (''Cannot read properties of '' @ (if v = JNull then ''null'' else ''undefined'') @
                '' (reading '' @ [CHR 0x27] @ k @ [CHR 0x27] @ '')'')"

definition own_prop :: "jsval \<Rightarrow> string \<Rightarrow> js_error + jsval" where
  "own_prop v k = (if nullish v then Inl (cannot_read v k) else Inr (prop_of v k))"

text \<open>The decimal numeral of an array index.\<close>

definition digit_char :: "nat \<Rightarrow> char" where
  "digit_char d = char_of (48 + d)"

fun dec_string :: "nat \<Rightarrow> string" where
  "dec_string n = (if n < 10 then [digit_char n] else dec_string (n div 10) @ [digit_char (n mod 10)])"

definition index_of_key :: "string \<Rightarrow> nat \<Rightarrow> nat option" where
  "index_of_key k n = find (\<lambda>i. dec_string i = k) [0..<n]"

text \<open>
  \<^verbatim>\<open>x[key]\<close> for a key that comes from data: a key of the object itself, the length and
  the elements of an array, the length and the code units of a string, and otherwise what
  the prototype chain holds under that name, which may be an accessor that throws.
\<close>

fun member :: "js_runtime \<Rightarrow> jsval \<Rightarrow> string \<Rightarrow> js_error + jsval" where
  "member rt JUndefined k = Inl (cannot_read JUndefined k)"
| "member rt JNull k = Inl (cannot_read JNull k)"
| "member rt (JObj kvs) k =
     (case map_of kvs k of Some v \<Rightarrow> Inr v | None \<Rightarrow> inherited rt (JObj kvs) k)"
| "member rt (JArr xs) k =
     (if k = ''length'' then Inr (JNum (Fin (of_nat (length xs))))
      else case index_of_key k (length xs) of
             Some i \<Rightarrow> Inr (xs ! i)
           | None \<Rightarrow> inherited rt (JArr xs) k)"
| "member rt (JStr s) k =
     (if k = ''length'' then Inr (JNum (Fin (of_nat (length s))))
      else case index_of_key k (length s) of
             Some i \<Rightarrow> Inr (JStr [s ! i])
           | None \<Rightarrow> inherited rt (JStr s) k)"
| "member rt v k = inherited rt v k"

section \<open>The rule engine\<close>

subsection \<open>Outcomes and operators\<close>

definition SAFE_ALLOW :: string where "SAFE_ALLOW = ''SAFE_ALLOW''"
definition SAFE_DENY :: string where "SAFE_DENY = ''SAFE_DENY''"
definition GREY_ZONE :: string where "GREY_ZONE = ''GREY_ZONE''"

text \<open>\<^verbatim>\<open>Object.values(OUTCOMES)\<close>\<close>

definition OUTCOMES_values :: "jsval list" where
  "OUTCOMES_values = [JStr SAFE_ALLOW, JStr SAFE_DENY, JStr GREY_ZONE]"

text \<open>\<^verbatim>\<open>xs.includes(v)\<close>\<close>

definition array_includes :: "jsval list \<Rightarrow> jsval \<Rightarrow> bool" where
  "array_includes xs v = list_ex (\<lambda>x. same_value_zero x v) xs"

text \<open>
  The comparison functions of \<^verbatim>\<open>OPERATORS\<close>. All but \<^verbatim>\<open>regex\<close> are bare expressions,
  which may throw while converting an operand; \<^verbatim>\<open>regex\<close> catches what it throws.
\<close>

definition op_eq :: "jsval \<Rightarrow> jsval \<Rightarrow> js_error + jsval" where
  "op_eq a b = Inr (JBool (strict_eq a b))"

definition op_neq :: "jsval \<Rightarrow> jsval \<Rightarrow> js_error + jsval" where
  "op_neq a b = Inr (JBool (\<not> strict_eq a b))"

definition op_gt :: "js_runtime \<Rightarrow> jsval \<Rightarrow> jsval \<Rightarrow> js_error + jsval" where
  "op_gt rt a b = and_then (js_gt rt a b) (\<lambda>r. Inr (JBool r))"

definition op_gte :: "js_runtime \<Rightarrow> jsval \<Rightarrow> jsval \<Rightarrow> js_error + jsval" where
  "op_gte rt a b = and_then (js_gte rt a b) (\<lambda>r. Inr (JBool r))"

definition op_lt :: "js_runtime \<Rightarrow> jsval \<Rightarrow> jsval \<Rightarrow> js_error + jsval" where
  "op_lt rt a b = and_then (js_lt rt a b) (\<lambda>r. Inr (JBool r))"

definition op_lte :: "js_runtime \<Rightarrow> jsval \<Rightarrow> jsval \<Rightarrow> js_error + jsval" where
  "op_lte rt a b = and_then (js_lte rt a b) (\<lambda>r. Inr (JBool r))"

definition op_in :: "jsval \<Rightarrow> jsval \<Rightarrow> js_error + jsval" where
  "op_in a b = Inr (JBool (case b of JArr xs \<Rightarrow> array_includes xs a | _ \<Rightarrow> False))"

definition op_nin :: "jsval \<Rightarrow> jsval \<Rightarrow> js_error + jsval" where
  "op_nin a b = Inr (JBool (case b of JArr xs \<Rightarrow> \<not> array_includes xs a | _ \<Rightarrow> False))"

definition op_exists :: "jsval \<Rightarrow> jsval \<Rightarrow> js_error + jsval" where
  "op_exists a b =
     (let exists = (\<not> strict_eq a JUndefined \<and> \<not> strict_eq a JNull)
      in Inr (JBool (if strict_eq b (JBool True) then exists else \<not> exists)))"

text \<open>
  \<^verbatim>\<open>new RegExp(b).test(String(a))\<close>: an undefined pattern is the empty pattern, any other
  is converted to a string; the constructor throws on a pattern it rejects.
\<close>

definition pattern_of :: "js_runtime \<Rightarrow> jsval \<Rightarrow> js_error + string" where
  "pattern_of rt b = (if b = JUndefined then Inr [] else js_String rt b)"

definition op_regex :: "js_runtime \<Rightarrow> jsval \<Rightarrow> jsval \<Rightarrow> js_error + jsval" where
  "op_regex rt a b =
     (case and_then (pattern_of rt b) (\<lambda>p.
             case new_RegExp rt p of
               None \<Rightarrow> Inl (SyntaxError ''Invalid regular expression'')
             | Some test \<Rightarrow> and_then (js_String rt a) (\<lambda>s. Inr (JBool (test s)))) of
        Inl e \<Rightarrow> Inr (JBool False)
      | Inr r \<Rightarrow> Inr r)"

text \<open>
  \<^verbatim>\<open>OPERATORS[op]\<close> and the call of what it finds. The key is the string \<^verbatim>\<open>op\<close> converts
  to. The ten names of the table come first; any other name is looked up in
  \<^verbatim>\<open>Object.prototype\<close>, where the table inherits from. \<open>None\<close> is the case
  \<^verbatim>\<open>!compareFn\<close>.
\<close>

definition OPERATORS ::
  "js_runtime \<Rightarrow> string \<Rightarrow> js_error + (jsval \<Rightarrow> jsval \<Rightarrow> js_error + jsval) option" where
  "OPERATORS rt k =
     (if k = ''eq'' then Inr (Some op_eq)
      else if k = ''neq'' then Inr (Some op_neq)
      else if k = ''gt'' then Inr (Some (op_gt rt))
      else if k = ''gte'' then Inr (Some (op_gte rt))
      else if k = ''lt'' then Inr (Some (op_lt rt))
      else if k = ''lte'' then Inr (Some (op_lte rt))
      else if k = ''in'' then Inr (Some op_in)
      else if k = ''nin'' then Inr (Some op_nin)
      else if k = ''exists'' then Inr (Some op_exists)
      else if k = ''regex'' then Inr (Some (op_regex rt))
      else and_then (inherited rt (JObj []) k) (\<lambda>found.
             case found of
               JBuiltin True n \<Rightarrow>
                 Inr (Some (\<lambda>a b. case builtin_call rt n a b of
                                      None \<Rightarrow> Inl (TypeError ''the built-in threw'')
                                    | Some r \<Rightarrow> Inr r))
             | v \<Rightarrow> if truthy v
                    then Inr (Some (\<lambda>a b. Inl (TypeError ''compareFn is not a function'')))
                    else Inr None))"

subsection \<open>getValue\<close>

text \<open>\<^verbatim>\<open>path.split(".")\<close>: the pieces between the dots, at least one.\<close>

fun split_dot :: "string \<Rightarrow> string list" where
  "split_dot [] = [[]]"
| "split_dot (c # cs) =
     (if c = CHR ''.'' then [] # split_dot cs
      else case split_dot cs of
             [] \<Rightarrow> [[c]]
           | seg # segs \<Rightarrow> (c # seg) # segs)"

text \<open>The reducer: \<^verbatim>\<open>current && current[key] !== undefined ? current[key] : undefined\<close>.\<close>

definition getValue_step :: "js_runtime \<Rightarrow> jsval \<Rightarrow> string \<Rightarrow> js_error + jsval" where
  "getValue_step rt current key =
     (if truthy current then
        and_then (member rt current key) (\<lambda>v.
          if \<not> strict_eq v JUndefined then member rt current key else Inr JUndefined)
      else Inr JUndefined)"

fun getValue_reduce :: "js_runtime \<Rightarrow> jsval \<Rightarrow> string list \<Rightarrow> js_error + jsval" where
  "getValue_reduce rt current [] = Inr current"
| "getValue_reduce rt current (key # keys) =
     and_then (getValue_step rt current key) (\<lambda>next. getValue_reduce rt next keys)"

text \<open>
  \<^verbatim>\<open>getValue(obj, path)\<close>. Only a string has \<^verbatim>\<open>split\<close>: any other \<^verbatim>\<open>path\<close> throws
  (reading \<^verbatim>\<open>split\<close> of undefined, or calling what is not a function).
\<close>

fun getValue :: "js_runtime \<Rightarrow> jsval \<Rightarrow> jsval \<Rightarrow> js_error + jsval" where
  "getValue rt obj (JStr path) = getValue_reduce rt obj (split_dot path)"
| "getValue rt obj JUndefined = Inl (cannot_read JUndefined ''split'')"
| "getValue rt obj JNull = Inl (cannot_read JNull ''split'')"
| "getValue rt obj path = Inl (TypeError ''path.split is not a function'')"

subsection \<open>evaluateCondition\<close>

text \<open>The simple field comparison, the part of \<^verbatim>\<open>evaluateCondition\<close> after the compound case.\<close>

definition evaluateLeaf :: "js_runtime \<Rightarrow> jsval \<Rightarrow> jsval \<Rightarrow> js_error + jsval" where
  "evaluateLeaf rt condition input =
     (let field = prop_of condition ''field'';
          op = prop_of condition ''op'';
          value = prop_of condition ''value''
      in and_then (getValue rt input field) (\<lambda>actualValue.
         and_then (js_String rt op) (\<lambda>key.
         and_then (OPERATORS rt key) (\<lambda>found.
           case found of
             None \<Rightarrow> Inr (JBool False)
           | Some compareFn \<Rightarrow>
               (case compareFn actualValue value of
                  Inl error \<Rightarrow> Inr (JBool False)
                | Inr r \<Rightarrow> Inr r)))))"

function evaluateCondition :: "js_runtime \<Rightarrow> jsval \<Rightarrow> jsval \<Rightarrow> js_error + jsval" where
  "evaluateCondition rt condition input =
     (case own_prop condition ''operator'' of
        Inl e \<Rightarrow> Inl e
      | Inr operator \<Rightarrow>
          if truthy operator then
            (case prop_of condition ''operands'' of
               JArr operands \<Rightarrow>
                 (case run_all (map (\<lambda>op. evaluateCondition rt op input) operands) of
                    Inl e \<Rightarrow> Inl e
                  | Inr results \<Rightarrow>
                      if strict_eq operator (JStr ''AND'')
                      then Inr (JBool (list_all (\<lambda>r. strict_eq r (JBool True)) results))
                      else if strict_eq operator (JStr ''OR'')
                      then Inr (JBool (list_ex (\<lambda>r. strict_eq r (JBool True)) results))
                      else Inr (JBool False))
             | _ \<Rightarrow> Inr (JBool False))
          else evaluateLeaf rt condition input)"
  by pat_completeness auto

subsection \<open>The engine and loadRules\<close>

record rule_engine =
  configPath :: string
  rules :: "jsval list"
  defaults :: jsval
  aiConfig :: jsval
  metadata :: jsval

definition new_RuleEngine :: "string \<Rightarrow> rule_engine" where
  "new_RuleEngine path =
     \<lparr>configPath = path, rules = [], defaults = JObj [], aiConfig = JObj [], metadata = JObj []\<rparr>"

text \<open>The file system and the YAML parser, as they answer at the time of a load.\<close>

record environment =
  readFileSync :: "string \<Rightarrow> js_error + string"
  yaml_load :: "string \<Rightarrow> js_error + jsval"

text \<open>\<^verbatim>\<open>a || b\<close>\<close>

definition or_else :: "jsval \<Rightarrow> jsval \<Rightarrow> jsval" where
  "or_else a b = (if truthy a then a else b)"

text \<open>
  The callback of \<^verbatim>\<open>filter\<close>. Reading \<^verbatim>\<open>rule.id\<close> throws for a rule that is null;
  once it has been read the rule is an object or a primitive and the other reads succeed.
\<close>

definition rule_is_active :: "jsval \<Rightarrow> js_error + bool" where
  "rule_is_active rule =
     and_then (own_prop rule ''id'') (\<lambda>rule_id.
       Inr (truthy rule_id \<and>
            truthy (prop_of rule ''condition'') \<and>
            array_includes OUTCOMES_values (prop_of rule ''outcome'') \<and>
            \<not> strict_eq (prop_of rule ''enabled'') (JBool False)))"

fun filter_rules :: "jsval list \<Rightarrow> js_error + jsval list" where
  "filter_rules [] = Inr []"
| "filter_rules (rule # rest) =
     and_then (rule_is_active rule) (\<lambda>keep.
     and_then (filter_rules rest) (\<lambda>kept.
       Inr (if keep then rule # kept else kept)))"

text \<open>The comparator of \<^verbatim>\<open>sort\<close>: \<^verbatim>\<open>(b.priority || 0) - (a.priority || 0)\<close>.\<close>

definition by_priority :: "js_runtime \<Rightarrow> jsval \<Rightarrow> jsval \<Rightarrow> js_error + jsnum" where
  "by_priority rt a b =
     and_then (own_prop b ''priority'') (\<lambda>pb.
     and_then (own_prop a ''priority'') (\<lambda>pa.
     and_then (to_number rt (or_else pb (JNum (Fin 0)))) (\<lambda>nb.
     and_then (to_number rt (or_else pa (JNum (Fin 0)))) (\<lambda>na.
       Inr (num_sub nb na)))))"

text \<open>
  The stable sort by a comparator: an element goes behind another only when the comparator
  says so with a positive number, and elements it does not tell apart keep their order.
  It is computed by insertion, the comparator always called with the element that came
  first in the array as \<^verbatim>\<open>a\<close>.
\<close>

fun insert_rule :: "js_runtime \<Rightarrow> jsval \<Rightarrow> jsval list \<Rightarrow> js_error + jsval list" where
  "insert_rule rt x [] = Inr [x]"
| "insert_rule rt x (y # ys) =
     and_then (by_priority rt x y) (\<lambda>v.
       if num_less (Fin 0) v
       then and_then (insert_rule rt x ys) (\<lambda>zs. Inr (y # zs))
       else Inr (x # y # ys))"

fun stable_sort_rules :: "js_runtime \<Rightarrow> jsval list \<Rightarrow> js_error + jsval list" where
  "stable_sort_rules rt [] = Inr []"
| "stable_sort_rules rt (x # xs) = and_then (stable_sort_rules rt xs) (insert_rule rt x)"

text \<open>The number the comparator makes of one rule: \<^verbatim>\<open>rule.priority || 0\<close>, converted.\<close>

definition priority_operand :: "js_runtime \<Rightarrow> jsval \<Rightarrow> js_error + jsnum" where
  "priority_operand rt rule =
     and_then (own_prop rule ''priority'') (\<lambda>p. to_number rt (or_else p (JNum (Fin 0))))"

fun is_finite :: "jsnum \<Rightarrow> bool" where
  "is_finite (Fin q) = True"
| "is_finite n = False"

text \<open>
  \<^verbatim>\<open>.sort((a, b) => (b.priority || 0) - (a.priority || 0))\<close>, applied to the rules that
  passed the filter, which are objects. An array of fewer than two elements is returned
  without a call of the comparator. Otherwise every element is compared at least once, so
  the call throws when the conversion of some priority throws (always the same TypeError).
  When all priorities are finite numbers the comparator is a consistent one, and the
  language fixes the result: since ES2019 \<^verbatim>\<open>Array.prototype.sort\<close> is stable. When some
  priority converts to NaN or to an infinity the comparator can return NaN; the order is
  then the engine's own.
\<close>

definition sort_rules :: "js_runtime \<Rightarrow> jsval list \<Rightarrow> js_error + jsval list" where
  "sort_rules rt xs =
     (if length xs < 2 then Inr xs
      else and_then (run_all (map (priority_operand rt) xs)) (\<lambda>ps.
             if list_all is_finite ps then stable_sort_rules rt xs
             else Inr (array_sort rt
                         (\<lambda>a b. num_sub (case priority_operand rt b of Inr n \<Rightarrow> n | Inl e \<Rightarrow> NaN)
                                         (case priority_operand rt a of Inr n \<Rightarrow> n | Inl e \<Rightarrow> NaN))
                         xs)))"

text \<open>\<^verbatim>\<open>(config.rules || []).filter(...).sort(...)\<close>: only an array has these methods.\<close>

definition active_rules :: "js_runtime \<Rightarrow> jsval \<Rightarrow> js_error + jsval list" where
  "active_rules rt config =
     and_then (own_prop config ''rules'') (\<lambda>rs.
       case or_else rs (JArr []) of
         JArr xs \<Rightarrow> and_then (filter_rules xs) (sort_rules rt)
       | _ \<Rightarrow> Inl (TypeError ''(config.rules || []).filter is not a function''))"

text \<open>
  \<^verbatim>\<open>loadRules()\<close>: the engine after the call, and what the call returned or threw (the
  \<^verbatim>\<open>catch\<close> block logs the error and throws it again). The four assignments are made
  one after the other, so an error after the first would leave what was assigned before.
\<close>

definition loadRules :: "js_runtime \<Rightarrow> environment \<Rightarrow> rule_engine \<Rightarrow> rule_engine \<times> (js_error + bool)" where
  "loadRules rt env this =
     (case readFileSync env (configPath this) of
        Inl e \<Rightarrow> (this, Inl e)
      | Inr configContent \<Rightarrow>
     (case yaml_load env configContent of
        Inl e \<Rightarrow> (this, Inl e)
      | Inr config \<Rightarrow>
     (case active_rules rt config of
        Inl e \<Rightarrow> (this, Inl e)
      | Inr rs \<Rightarrow>
     (let this1 = this\<lparr>rules := rs\<rparr> in
      case own_prop config ''defaults'' of
        Inl e \<Rightarrow> (this1, Inl e)
      | Inr d \<Rightarrow>
     (let this2 = this1\<lparr>defaults := or_else d (JObj [(''no_match_outcome'', JStr GREY_ZONE)])\<rparr> in
      case own_prop config ''ai_config'' of
        Inl e \<Rightarrow> (this2, Inl e)
      | Inr a \<Rightarrow>
     (let this3 = this2\<lparr>aiConfig := or_else a (JObj [])\<rparr> in
      case own_prop config ''metadata'' of
        Inl e \<Rightarrow> (this3, Inl e)
      | Inr m \<Rightarrow> (this3\<lparr>metadata := or_else m (JObj [])\<rparr>, Inr True)))))))"

subsection \<open>evaluate\<close>

record matched_rule =
  rule_id :: jsval
  rule_name :: jsval
  rule_priority :: jsval

datatype path_entry =
    INVALID_INPUT
  | Attempt (ruleId: jsval) (ruleName: jsval) (matched: jsval)

text \<open>The result of \<^verbatim>\<open>evaluate\<close>, without \<^verbatim>\<open>evaluationTimeMs\<close>, which reads the clock.\<close>

record evaluation_result =
  outcome :: jsval
  matchedRule :: "matched_rule option"
  evaluationPath :: "path_entry list"

text \<open>The loop over \<^verbatim>\<open>this.rules\<close>, with the evaluation path built so far.\<close>

fun evaluate_rules ::
  "js_runtime \<Rightarrow> jsval \<Rightarrow> jsval list \<Rightarrow> jsval \<Rightarrow> path_entry list \<Rightarrow> js_error + evaluation_result" where
  "evaluate_rules rt dflts [] input path =
     and_then (own_prop dflts ''no_match_outcome'') (\<lambda>out.
       Inr \<lparr>outcome = out, matchedRule = None, evaluationPath = path\<rparr>)"
| "evaluate_rules rt dflts (rule # rest) input path =
     and_then (own_prop rule ''condition'') (\<lambda>condition.
     and_then (evaluateCondition rt condition input) (\<lambda>matches.
       let path' = path @ [Attempt (prop_of rule ''id'') (prop_of rule ''name'') matches] in
       if truthy matches
       then Inr \<lparr>outcome = prop_of rule ''outcome'',
                 matchedRule = Some \<lparr>rule_id = prop_of rule ''id'',
                                       rule_name = prop_of rule ''name'',
                                       rule_priority = prop_of rule ''priority''\<rparr>,
                 evaluationPath = path'\<rparr>
       else evaluate_rules rt dflts rest input path'))"

definition evaluate :: "js_runtime \<Rightarrow> rule_engine \<Rightarrow> jsval \<Rightarrow> js_error + evaluation_result" where
  "evaluate rt this input =
     (if \<not> truthy input \<or> \<not> typeof_object input then
        and_then (own_prop (defaults this) ''no_match_outcome'') (\<lambda>out.
          Inr \<lparr>outcome = out, matchedRule = None, evaluationPath = [INVALID_INPUT]\<rparr>)
      else evaluate_rules rt (defaults this) (rules this) input [])"

section \<open>The decision service\<close>

subsection \<open>The analyzer\<close>

record ai_insight =
  analyzed :: bool
  recommendation :: jsval
  confidence :: jsval
  reasoning :: jsval
  riskFactors :: jsval
  mitigatingFactors :: jsval
  analysisTimeMs :: jsval
  insight_error :: jsval

text \<open>
  The class \<^verbatim>\<open>AIAnalyzer\<close> is imported from \<^verbatim>\<open>src/ai/analyzer.js\<close>, which is not
  among the sources. The service is modelled over any analyzer: what \<^verbatim>\<open>isEnabled()\<close>
  answers, what \<^verbatim>\<open>analyze(input, ruleResult)\<close> returns or throws, and the verdict it
  gives to a rule outcome outside the three of the enumeration, on which the spec is silent.
\<close>

record ai_analyzer =
  isEnabled :: bool
  analyze :: "jsval \<Rightarrow> evaluation_result \<Rightarrow> js_error + ai_insight"
  unmapped_outcome :: "jsval \<Rightarrow> jsval"

record combined_decision =
  finalDecision :: jsval
  source :: jsval
  combined_confidence :: jsval

text \<open>
  Modelled from the spec: \<^verbatim>\<open>AIAnalyzer.combineDecision\<close> of the missing
  \<^verbatim>\<open>src/ai/analyzer.js\<close>, after section 4.3, step 4 (Combine): the rule outcome is mapped
  to a baseline verdict, SAFE_ALLOW to ALLOW, SAFE_DENY to DENY, GREY_ZONE to REVIEW, with
  source RULE_ENGINE; if arbitration produced an analyzed result, its recommendation
  supersedes the baseline, the source is AI_ANALYSIS and the confidence is carried from the
  insight; otherwise the baseline stands unmodified.
\<close>

definition baseline :: "ai_analyzer \<Rightarrow> jsval \<Rightarrow> jsval" where
  "baseline this ruleOutcome =
     (if ruleOutcome = JStr SAFE_ALLOW then JStr ''ALLOW''
      else if ruleOutcome = JStr SAFE_DENY then JStr ''DENY''
      else if ruleOutcome = JStr GREY_ZONE then JStr ''REVIEW''
      else unmapped_outcome this ruleOutcome)"

definition combineDecision :: "ai_analyzer \<Rightarrow> jsval \<Rightarrow> ai_insight \<Rightarrow> combined_decision" where
  "combineDecision this ruleOutcome aiInsight =
     (if analyzed aiInsight
      then \<lparr>finalDecision = recommendation aiInsight, source = JStr ''AI_ANALYSIS'',
            combined_confidence = confidence aiInsight\<rparr>
      else \<lparr>finalDecision = baseline this ruleOutcome, source = JStr ''RULE_ENGINE'',
            combined_confidence = JUndefined\<rparr>)"

subsection \<open>The service\<close>

record decision_service =
  version :: string
  ruleEngine :: rule_engine
  aiAnalyzer :: ai_analyzer

text \<open>What \<^verbatim>\<open>validateInput\<close> returns: \<^verbatim>\<open>{valid: true}\<close>, or \<^verbatim>\<open>{valid: false, error}\<close>.\<close>

datatype validation = Valid | Invalid string

definition validateInput :: "jsval \<Rightarrow> validation" where
  "validateInput input =
     (if \<not> truthy input \<or> \<not> typeof_object input
      then Invalid ''Input must be a non-null object''
      else if \<not> truthy (prop_of input ''request'') \<or> \<not> typeof_object (prop_of input ''request'')
      then Invalid ''Input must contain a \"request\" object''
      else if \<not> truthy (prop_of input ''signals'') \<or> \<not> typeof_object (prop_of input ''signals'')
      then Invalid ''Input must contain a \"signals\" object''
      else Valid)"

text \<open>
  The response, without the clock readings of \<^verbatim>\<open>meta\<close>. A key that a response does
  not have, and \<^verbatim>\<open>aiAnalysis: null\<close>, are \<open>None\<close>.
\<close>

record decision =
  final :: jsval
  decision_source :: jsval
  decision_confidence :: jsval

record rule_evaluation =
  evaluated_outcome :: jsval
  evaluated_matchedRule :: "matched_rule option"

record ai_analysis =
  analysis_recommendation :: jsval
  analysis_confidence :: jsval
  analysis_reasoning :: jsval
  analysis_riskFactors :: jsval
  analysis_mitigatingFactors :: jsval
  analysis_timeMs :: jsval
  analysis_error :: jsval

record error_info =
  error_message :: string
  error_type :: string

record response =
  decision :: decision
  ruleEvaluation :: "rule_evaluation option"
  aiAnalysis :: "ai_analysis option"
  error :: "error_info option"
  meta_version :: string
  meta_requestId :: string

definition buildResponse ::
  "decision_service \<Rightarrow> evaluation_result \<Rightarrow> ai_insight \<Rightarrow> combined_decision \<Rightarrow> string \<Rightarrow> response" where
  "buildResponse this ruleResult aiInsight combinedDecision requestId =
     \<lparr>decision = \<lparr>final = finalDecision combinedDecision,
                   decision_source = source combinedDecision,
                   decision_confidence = or_else (combined_confidence combinedDecision) JNull\<rparr>,
      ruleEvaluation = Some \<lparr>evaluated_outcome = outcome ruleResult,
                              evaluated_matchedRule = matchedRule ruleResult\<rparr>,
      aiAnalysis =
        (if analyzed aiInsight
         then Some \<lparr>analysis_recommendation = recommendation aiInsight,
                    analysis_confidence = confidence aiInsight,
                    analysis_reasoning = reasoning aiInsight,
                    analysis_riskFactors = or_else (riskFactors aiInsight) (JArr []),
                    analysis_mitigatingFactors = or_else (mitigatingFactors aiInsight) (JArr []),
                    analysis_timeMs = or_else (analysisTimeMs aiInsight) JNull,
                    analysis_error = or_else (insight_error aiInsight) JNull\<rparr>
         else None),
      error = None,
      meta_version = version this,
      meta_requestId = requestId\<rparr>"

definition buildErrorResponse :: "decision_service \<Rightarrow> string \<Rightarrow> string \<Rightarrow> response" where
  "buildErrorResponse this err requestId =
     \<lparr>decision = \<lparr>final = JStr ''ERROR'', decision_source = JStr ''SYSTEM_ERROR'',
                   decision_confidence = JNull\<rparr>,
      ruleEvaluation = None,
      aiAnalysis = None,
      error = Some \<lparr>error_message = err, error_type = ''PROCESSING_ERROR''\<rparr>,
      meta_version = version this,
      meta_requestId = requestId\<rparr>"

text \<open>The insight \<^verbatim>\<open>decide\<close> starts from, kept when the analyzer is not asked.\<close>

definition no_insight :: ai_insight where
  "no_insight =
     \<lparr>analyzed = False, recommendation = JNull, confidence = JNull, reasoning = JNull,
      riskFactors = JArr [], mitigatingFactors = JArr [], analysisTimeMs = JNull,
      insight_error = JNull\<rparr>"

text \<open>
  \<^verbatim>\<open>decide(input, requestId)\<close>: the response, and the calls of \<^verbatim>\<open>analyze\<close> it made,
  each with its arguments. Whatever is thrown inside the \<^verbatim>\<open>try\<close> block becomes the
  error response. The calls of the metrics module (\<^verbatim>\<open>src/metrics/prometheus.js\<close>, not
  among the sources) only record what happened and are left out.
\<close>

definition decide ::
  "js_runtime \<Rightarrow> decision_service \<Rightarrow> jsval \<Rightarrow> string \<Rightarrow> response \<times> (jsval \<times> evaluation_result) list" where
  "decide rt this input requestId =
     (case validateInput input of
        Invalid err \<Rightarrow> (buildErrorResponse this err requestId, [])
      | Valid \<Rightarrow>
     (case evaluate rt (ruleEngine this) input of
        Inl e \<Rightarrow> (buildErrorResponse this (message e) requestId, [])
      | Inr ruleResult \<Rightarrow>
     (let needsAI = (strict_eq (outcome ruleResult) (JStr GREY_ZONE) \<and>
                     version this = ''v2'' \<and>
                     isEnabled (aiAnalyzer this))
      in if needsAI then
           (case analyze (aiAnalyzer this) input ruleResult of
              Inl e \<Rightarrow> (buildErrorResponse this (message e) requestId, [(input, ruleResult)])
            | Inr aiInsight \<Rightarrow>
                (buildResponse this ruleResult aiInsight
                   (combineDecision (aiAnalyzer this) (outcome ruleResult) aiInsight) requestId,
                 [(input, ruleResult)]))
         else
           (buildResponse this ruleResult no_insight
              (combineDecision (aiAnalyzer this) (outcome ruleResult) no_insight) requestId,
            []))))"

text \<open>
  \<^verbatim>\<open>reloadRules()\<close>: the service after the call and the object returned. The update
  of the metrics after a successful load is left out, as in \<^verbatim>\<open>decide\<close>.
\<close>

record reload_result =
  success :: bool
  rulesCount :: "nat option"
  reload_error :: "string option"

definition reloadRules ::
  "js_runtime \<Rightarrow> environment \<Rightarrow> decision_service \<Rightarrow> decision_service \<times> reload_result" where
  "reloadRules rt env this =
     (case loadRules rt env (ruleEngine this) of
        (engine, Inl e) \<Rightarrow>
          (this\<lparr>ruleEngine := engine\<rparr>,
           \<lparr>success = False, rulesCount = None, reload_error = Some (message e)\<rparr>)
      | (engine, Inr ok) \<Rightarrow>
          (this\<lparr>ruleEngine := engine\<rparr>,
           \<lparr>success = True, rulesCount = Some (length (rules engine)), reload_error = None\<rparr>))"

section \<open>Notions used to state the properties\<close>


text \<open>
  A path through the data of an input. \<open>own_path\<close> follows the segments through nested
  mappings and gives the value stored under the last one. The path is absent when, on the
  way, a mapping has no key for the next segment (and inherits none).
\<close>

fun own_path :: "jsval \<Rightarrow> string list \<Rightarrow> jsval option" where
  "own_path v [] = Some v"
| "own_path (JObj kvs) (k # ks) = (case map_of kvs k of Some w \<Rightarrow> own_path w ks | None \<Rightarrow> None)"
| "own_path v (k # ks) = None"

fun absent_path :: "js_runtime \<Rightarrow> jsval \<Rightarrow> string list \<Rightarrow> bool" where
  "absent_path rt (JObj kvs) (k # ks) =
     (case map_of kvs k of
        Some w \<Rightarrow> absent_path rt w ks
      | None \<Rightarrow> inherited rt (JObj kvs) k = Inr JUndefined)"
| "absent_path rt v ks = False"


text \<open>
  What the loop of \<^verbatim>\<open>evaluate\<close> computes for one rule,
  \<^verbatim>\<open>this.evaluateCondition(rule.condition, input)\<close>, and the entry it then appends to the
  evaluation path.
\<close>

definition rule_match :: "js_runtime \<Rightarrow> jsval \<Rightarrow> jsval \<Rightarrow> js_error + jsval" where
  "rule_match rt input rule =
     and_then (own_prop rule ''condition'') (\<lambda>condition. evaluateCondition rt condition input)"

definition attempt_for :: "js_runtime \<Rightarrow> jsval \<Rightarrow> jsval \<Rightarrow> path_entry" where
  "attempt_for rt input rule =
     Attempt (prop_of rule ''id'') (prop_of rule ''name'')
       (case rule_match rt input rule of Inr m \<Rightarrow> m | Inl e \<Rightarrow> JUndefined)"

text \<open>A rule matches when its condition evaluates to a truthy value, and does not match
  when it evaluates to a falsy one; an evaluation that throws is neither.\<close>

definition is_match :: "js_runtime \<Rightarrow> jsval \<Rightarrow> jsval \<Rightarrow> bool" where
  "is_match rt input rule = (case rule_match rt input rule of Inr m \<Rightarrow> truthy m | Inl e \<Rightarrow> False)"

definition no_match :: "js_runtime \<Rightarrow> jsval \<Rightarrow> jsval \<Rightarrow> bool" where
  "no_match rt input rule = (case rule_match rt input rule of Inr m \<Rightarrow> \<not> truthy m | Inl e \<Rightarrow> False)"







text \<open>The steps of a load before anything is assigned: read, parse, filter and sort.\<close>

definition load_steps :: "js_runtime \<Rightarrow> environment \<Rightarrow> rule_engine \<Rightarrow> js_error + jsval list" where
  "load_steps rt env this =
     and_then (readFileSync env (configPath this)) (\<lambda>configContent.
     and_then (yaml_load env configContent) (\<lambda>config. active_rules rt config))"

text \<open>
  The sort of the engine that Node runs on, for an array of fewer than 64 elements. A NaN
  from the comparator counts as 0. The engine first takes the longest run at the start of
  the array, comparing each element with the one before it: a descending run, which it
  reverses, when the second element compares below the first, and an ascending run
  otherwise. Then it inserts the remaining elements one by one into the run, each at the
  place a binary search finds for it.
\<close>

definition sort_order :: "(jsval \<Rightarrow> jsval \<Rightarrow> jsnum) \<Rightarrow> jsval \<Rightarrow> jsval \<Rightarrow> jsnum" where
  "sort_order compare x y = (if compare x y = NaN then Fin 0 else compare x y)"

definition below :: "(jsval \<Rightarrow> jsval \<Rightarrow> jsnum) \<Rightarrow> jsval \<Rightarrow> jsval \<Rightarrow> bool" where
  "below compare x y = num_less (sort_order compare x y) (Fin 0)"

fun run_extend :: "(jsval \<Rightarrow> jsval \<Rightarrow> jsnum) \<Rightarrow> bool \<Rightarrow> jsval \<Rightarrow> jsval list \<Rightarrow> nat" where
  "run_extend compare is_descending previous [] = 0"
| "run_extend compare is_descending previous (current # rest) =
     (if below compare current previous = is_descending
      then Suc (run_extend compare is_descending current rest)
      else 0)"

function insertion_point ::
  "(jsval \<Rightarrow> jsval \<Rightarrow> jsnum) \<Rightarrow> jsval \<Rightarrow> jsval list \<Rightarrow> nat \<Rightarrow> nat \<Rightarrow> nat" where
  "insertion_point compare pivot run left right =
     (if left < right
      then if below compare pivot (run ! (left + (right - left) div 2))
           then insertion_point compare pivot run left (left + (right - left) div 2)
           else insertion_point compare pivot run (left + (right - left) div 2 + 1) right
      else left)"
  by pat_completeness auto
termination insertion_point
proof (relation "measure (\<lambda>(compare, pivot, run, left, right). right - left)")
  fix compare :: "jsval \<Rightarrow> jsval \<Rightarrow> jsnum" and pivot :: jsval and run :: "jsval list"
    and left right :: nat
  assume less: "left < right"
  then have "(right - left) div 2 < right - left" by simp
  then show "((compare, pivot, run, left, left + (right - left) div 2), (compare, pivot, run, left, right))
    \<in> measure (\<lambda>(compare, pivot, run, left, right). right - left)" by simp
  from less show "((compare, pivot, run, left + (right - left) div 2 + 1, right), (compare, pivot, run, left, right))
    \<in> measure (\<lambda>(compare, pivot, run, left, right). right - left)" by simp
qed simp

declare insertion_point.simps [simp del]

fun insert_all :: "(jsval \<Rightarrow> jsval \<Rightarrow> jsnum) \<Rightarrow> jsval list \<Rightarrow> jsval list \<Rightarrow> jsval list" where
  "insert_all compare run [] = run"
| "insert_all compare run (pivot # rest) =
     (let p = insertion_point compare pivot run 0 (length run)
      in insert_all compare (take p run @ pivot # drop p run) rest)"

fun engine_sort :: "(jsval \<Rightarrow> jsval \<Rightarrow> jsnum) \<Rightarrow> jsval list \<Rightarrow> jsval list" where
  "engine_sort compare (x # y # rest) =
     (let is_descending = below compare y x;
          n = 2 + run_extend compare is_descending y rest;
          run = take n (x # y # rest)
      in insert_all compare (if is_descending then rev run else run) (drop n (x # y # rest)))"
| "engine_sort compare xs = xs"

text \<open>
  A runtime to evaluate examples with. It answers as the language does where the examples
  below ask. The patterns \<^verbatim>\<open>.*\<close> and the empty one match every string, and
  \<^verbatim>\<open>^undefined$\<close> matches the string \<^verbatim>\<open>undefined\<close> only. A plain object inherits
  \<^verbatim>\<open>constructor\<close>, the built-in function \<^verbatim>\<open>Object\<close>, and nothing under the names of the
  examples' fields (\<^verbatim>\<open>user\<close>, \<^verbatim>\<open>score\<close> and the like); reading \<^verbatim>\<open>caller\<close> or
  \<^verbatim>\<open>arguments\<close> of a built-in function throws. A string that is not a numeral
  (\<^verbatim>\<open>high\<close>) converts to NaN. Arrays are sorted as the engine of Node sorts them. Its
  other answers are placeholders, which no example reads.
\<close>

definition sample_runtime :: js_runtime where
  "sample_runtime =
     \<lparr>string_to_number = (\<lambda>s. if s = [] then Fin 0 else NaN),
      number_to_string = (\<lambda>n. []),
      new_RegExp = (\<lambda>p. if p = ''.*'' \<or> p = [] then Some (\<lambda>s. True)
                          else if p = ''^undefined$'' then Some (\<lambda>s. s = ''undefined'')
                          else None),
      inherited = (\<lambda>v k.
         case v of
           JObj kvs \<Rightarrow> if k = ''constructor'' then Inr (JBuiltin True ''Object'') else Inr JUndefined
         | JBuiltin callable n \<Rightarrow>
             if callable \<and> (k = ''caller'' \<or> k = ''arguments'')
             then Inl (TypeError ''the caller, callee, and arguments properties may not be accessed on strict mode functions or the arguments objects for calls to them'')
             else Inr JUndefined
         | _ \<Rightarrow> Inr JUndefined),
      builtin_string = (\<lambda>n. n),
      builtin_call = (\<lambda>n a b. None),
      array_sort = engine_sort\<rparr>"

text \<open>An analyzer that is switched off, and a service of version v1 around an engine.\<close>

definition sample_analyzer :: ai_analyzer where
  "sample_analyzer =
     \<lparr>isEnabled = False,
      analyze = (\<lambda>input ruleResult. Inl (Thrown ''AI analysis is disabled'')),
      unmapped_outcome = (\<lambda>ruleOutcome. JUndefined)\<rparr>"

definition sample_service :: "rule_engine \<Rightarrow> decision_service" where
  "sample_service engine = \<lparr>version = ''v1'', ruleEngine = engine, aiAnalyzer = sample_analyzer\<rparr>"

section \<open>Termination of the condition evaluator\<close>

lemma size_map_of: "map_of kvs k = Some v \<Longrightarrow> size v < size (JObj kvs)"
  by (induction kvs) (auto split: if_splits)

lemma size_elem: "x \<in> set xs \<Longrightarrow> size x < size (JArr xs)"
  by (induction xs) auto

lemma size_prop_of: "prop_of c k = JArr xs \<Longrightarrow> x \<in> set xs \<Longrightarrow> size x < size c"
proof (cases c)
  case (JObj kvs)
  assume a: "prop_of c k = JArr xs" "x \<in> set xs"
  with JObj have "map_of kvs k = Some (JArr xs)" by (simp split: option.splits)
  then have "size (JArr xs) < size c" using JObj size_map_of by blast
  moreover have "size x < size (JArr xs)" using a size_elem by blast
  ultimately show ?thesis by simp
qed simp_all

termination evaluateCondition
  by (relation "measure (\<lambda>(rt, c, i). size c)") (auto dest: size_prop_of)

section \<open>The condition evaluator: auxiliary facts\<close>

declare evaluateCondition.simps [simp del]

lemma and_then_Inr_iff: "and_then m f = Inr y \<longleftrightarrow> (\<exists>x. m = Inr x \<and> f x = Inr y)"
  by (cases m) simp_all

lemma and_then_Inl_iff:
  "and_then m f = Inl e \<longleftrightarrow> m = Inl e \<or> (\<exists>x. m = Inr x \<and> f x = Inl e)"
  by (cases m) simp_all


lemma prop_defined_not_nullish: "prop_of c k \<noteq> JUndefined \<Longrightarrow> \<not> nullish c"
  by (cases c) (auto simp: nullish_def)

lemma evaluateCondition_leaf:
  "\<not> nullish c \<Longrightarrow> \<not> truthy (prop_of c ''operator'') \<Longrightarrow>
   evaluateCondition rt c input = evaluateLeaf rt c input"
  by (subst evaluateCondition.simps) (simp add: own_prop_def)


lemma strict_eq_JStr: "strict_eq v (JStr s) = (v = JStr s)"
  by (cases v) auto


lemma member_error: "truthy cur \<Longrightarrow> member rt cur k = Inl e \<Longrightarrow> inherited rt cur k = Inl e"
  by (cases cur) (auto split: option.splits if_splits)

lemma getValue_step_error:
  "getValue_step rt cur k = Inl e \<Longrightarrow> \<exists>v. inherited rt v k = Inl e"
  by (auto simp: getValue_step_def and_then_Inl_iff split: if_splits dest: member_error)

lemma getValue_reduce_error:
  "getValue_reduce rt cur ks = Inl e \<Longrightarrow> \<exists>v k. k \<in> set ks \<and> inherited rt v k = Inl e"
proof (induction ks arbitrary: cur)
  case (Cons k ks)
  from Cons.prems consider "getValue_step rt cur k = Inl e"
    | nxt where "getValue_step rt cur k = Inr nxt" "getValue_reduce rt nxt ks = Inl e"
    by (auto simp: and_then_Inl_iff)
  then show ?case
  proof cases
    case 1
    then obtain v where "inherited rt v k = Inl e" using getValue_step_error by blast
    then show ?thesis by auto
  next
    case 2
    then obtain v k' where "k' \<in> set ks" "inherited rt v k' = Inl e" using Cons.IH by blast
    then show ?thesis by auto
  qed
qed simp

lemma getValue_step_own:
  "map_of kvs k = Some w \<Longrightarrow> getValue_step rt (JObj kvs) k = Inr w"
  by (cases w) (simp_all add: getValue_step_def)

lemma own_path_resolves: "own_path v ks = Some w \<Longrightarrow> getValue_reduce rt v ks = Inr w"
proof (induction v ks rule: own_path.induct)
  case (2 kvs k ks)
  then show ?case by (auto simp: getValue_step_own split: option.splits)
qed simp_all

lemma getValue_reduce_undefined: "getValue_reduce rt JUndefined ks = Inr JUndefined"
  by (induction ks) (simp_all add: getValue_step_def)

lemma absent_path_resolves: "absent_path rt v ks \<Longrightarrow> getValue_reduce rt v ks = Inr JUndefined"
proof (induction rt v ks rule: absent_path.induct)
  case (1 rt kvs k ks)
  show ?case
  proof (cases "map_of kvs k")
    case None
    with 1 have "getValue_step rt (JObj kvs) k = Inr JUndefined"
      by (simp add: getValue_step_def)
    then show ?thesis by (simp add: getValue_reduce_undefined)
  next
    case (Some w)
    with 1 show ?thesis by (simp add: getValue_step_own)
  qed
qed simp_all

lemma getValue_reduce_append:
  "getValue_reduce rt cur (ks @ ks') =
   and_then (getValue_reduce rt cur ks) (\<lambda>v. getValue_reduce rt v ks')"
proof (induction ks arbitrary: cur)
  case (Cons k ks)
  then show ?case by (cases "getValue_step rt cur k") simp_all
qed simp

lemma getValue_step_missing:
  "\<not> truthy cur \<or> member rt cur k = Inr JUndefined \<Longrightarrow> getValue_step rt cur k = Inr JUndefined"
  by (auto simp: getValue_step_def)

lemma getValue_step_present:
  "truthy cur \<Longrightarrow> member rt cur k = Inr v \<Longrightarrow> v \<noteq> JUndefined \<Longrightarrow> getValue_step rt cur k = Inr v"
  by (cases v) (auto simp: getValue_step_def)

lemma js_String_JStr: "js_String rt (JStr s) = Inr s" by simp

lemma evaluateLeaf_op:
  assumes "prop_of c ''field'' = JStr path" "prop_of c ''op'' = JStr k"
    "getValue rt input (JStr path) = Inr a" "OPERATORS rt k = Inr (Some f)"
  shows "evaluateLeaf rt c input =
    (case f a (prop_of c ''value'') of Inl e \<Rightarrow> Inr (JBool False) | Inr r \<Rightarrow> Inr r)"
  using assms by (simp add: evaluateLeaf_def)

lemma strict_eq_undefined: "strict_eq JUndefined v = (v = JUndefined)"
  by (cases v) auto







text \<open>
  The \<^verbatim>\<open>try\<close> block of \<^verbatim>\<open>evaluateCondition\<close> covers the comparison only. A leaf
  whose \<^verbatim>\<open>field\<close> is not a string fails earlier, in \<^verbatim>\<open>getValue\<close>, and that error
  leaves \<^verbatim>\<open>evaluateCondition\<close>.
\<close>

lemma getValue_not_a_path: "\<forall>p. field \<noteq> JStr p \<Longrightarrow> \<exists>e. getValue rt obj field = Inl e"
  by (cases field) simp_all

lemma leaf_without_path_throws:
  assumes "\<not> nullish c" "\<not> truthy (prop_of c ''operator'')" "\<forall>p. prop_of c ''field'' \<noteq> JStr p"
  shows "\<exists>e. evaluateCondition rt c input = Inl e"
proof -
  obtain e where "getValue rt input (prop_of c ''field'') = Inl e"
    using getValue_not_a_path [OF assms(3)] by blast
  then have "evaluateLeaf rt c input = Inl e" by (simp add: evaluateLeaf_def)
  then show ?thesis using assms(1,2) by (simp add: evaluateCondition_leaf)
qed

lemma leaf_on_path:
  assumes "prop_of c ''field'' = JStr path" "\<not> truthy (prop_of c ''operator'')"
    "prop_of c ''op'' = JStr k" "getValue_reduce rt input (split_dot path) = Inr a"
    "OPERATORS rt k = Inr (Some f)"
  shows "evaluateCondition rt c input =
    (case f a (prop_of c ''value'') of Inl e \<Rightarrow> Inr (JBool False) | Inr r \<Rightarrow> Inr r)"
proof -
  have n: "\<not> nullish c" using assms(1) prop_defined_not_nullish [of c "''field''"] by simp
  have g: "getValue rt input (JStr path) = Inr a" using assms(4) by simp
  have "evaluateLeaf rt c input =
    (case f a (prop_of c ''value'') of Inl e \<Rightarrow> Inr (JBool False) | Inr r \<Rightarrow> Inr r)"
    using evaluateLeaf_op [OF assms(1) assms(3) g assms(5)] .
  with n assms(2) show ?thesis by (simp add: evaluateCondition_leaf)
qed

lemma OPERATORS_eq: "OPERATORS rt ''eq'' = Inr (Some op_eq)"
  by (simp add: OPERATORS_def)

lemma OPERATORS_exists: "OPERATORS rt ''exists'' = Inr (Some op_exists)"
  by (simp add: OPERATORS_def)



lemma falsy_container:
  assumes "own_path input pre = Some cur" "\<not> truthy cur"
  shows "getValue_reduce rt input (pre @ key # post) = Inr JUndefined"
proof -
  have "getValue_reduce rt input pre = Inr cur" using assms(1) by (rule own_path_resolves)
  moreover have "getValue_step rt cur key = Inr JUndefined"
    using assms(2) by (simp add: getValue_step_def)
  ultimately show ?thesis by (simp add: getValue_reduce_append getValue_reduce_undefined)
qed

subsection \<open>The loop of evaluate\<close>

lemma evaluate_rules_step_no_match:
  assumes "no_match rt input rule"
  shows "evaluate_rules rt d (rule # rest) input path =
   evaluate_rules rt d rest input (path @ [attempt_for rt input rule])"
proof -
  from assms obtain m where m: "rule_match rt input rule = Inr m" "\<not> truthy m"
    by (auto simp: no_match_def split: sum.splits)
  then obtain c where c: "own_prop rule ''condition'' = Inr c" "evaluateCondition rt c input = Inr m"
    by (auto simp: rule_match_def and_then_Inr_iff)
  show ?thesis using m c by (simp add: attempt_for_def)
qed

lemma evaluate_rules_step_match:
  assumes "is_match rt input rule"
  shows "evaluate_rules rt d (rule # rest) input path =
   Inr \<lparr>outcome = prop_of rule ''outcome'',
        matchedRule = Some \<lparr>rule_id = prop_of rule ''id'', rule_name = prop_of rule ''name'',
                              rule_priority = prop_of rule ''priority''\<rparr>,
        evaluationPath = path @ [attempt_for rt input rule]\<rparr>"
proof -
  from assms obtain m where m: "rule_match rt input rule = Inr m" "truthy m"
    by (auto simp: is_match_def split: sum.splits)
  then obtain c where c: "own_prop rule ''condition'' = Inr c" "evaluateCondition rt c input = Inr m"
    by (auto simp: rule_match_def and_then_Inr_iff)
  show ?thesis using m c by (simp add: attempt_for_def)
qed

declare evaluate_rules.simps(2) [simp del]

lemma evaluate_rules_first_match:
  "\<forall>r \<in> set pre. no_match rt input r \<Longrightarrow> is_match rt input rule \<Longrightarrow>
   evaluate_rules rt d (pre @ rule # post) input path =
   Inr \<lparr>outcome = prop_of rule ''outcome'',
        matchedRule = Some \<lparr>rule_id = prop_of rule ''id'', rule_name = prop_of rule ''name'',
                              rule_priority = prop_of rule ''priority''\<rparr>,
        evaluationPath = path @ map (attempt_for rt input) pre @ [attempt_for rt input rule]\<rparr>"
proof (induction pre arbitrary: path)
  case Nil
  then show ?case by (simp add: evaluate_rules_step_match)
next
  case (Cons r pre)
  then show ?case by (simp add: evaluate_rules_step_no_match)
qed

lemma evaluate_rules_none:
  "\<forall>r \<in> set rs. no_match rt input r \<Longrightarrow>
   evaluate_rules rt d rs input path =
   and_then (own_prop d ''no_match_outcome'') (\<lambda>out.
     Inr \<lparr>outcome = out, matchedRule = None,
          evaluationPath = path @ map (attempt_for rt input) rs\<rparr>)"
proof (induction rs arbitrary: path)
  case Nil
  then show ?case by simp
next
  case (Cons r rs)
  then show ?case by (simp add: evaluate_rules_step_no_match)
qed

lemma evaluate_rules_step_throw:
  assumes "rule_match rt input rule = Inl e"
  shows "evaluate_rules rt d (rule # rest) input path = Inl e"
  using assms by (auto simp: rule_match_def and_then_Inl_iff evaluate_rules.simps(2))

lemma evaluate_rules_first_throw:
  "\<forall>r \<in> set pre. no_match rt input r \<Longrightarrow> rule_match rt input rule = Inl e \<Longrightarrow>
   evaluate_rules rt d (pre @ rule # post) input path = Inl e"
proof (induction pre arbitrary: path)
  case Nil
  then show ?case by (simp add: evaluate_rules_step_throw)
next
  case (Cons r pre)
  then show ?case by (simp add: evaluate_rules_step_no_match)
qed

lemma own_prop_truthy: "truthy v \<Longrightarrow> own_prop v k = Inr (prop_of v k)"
  by (cases v) (auto simp: own_prop_def nullish_def)

lemmas concrete_evaluation =
  evaluateCondition.simps own_prop_def nullish_def evaluateLeaf_def getValue_step_def OPERATORS_def
  op_eq_def op_neq_def op_gt_def op_gte_def op_lt_def op_lte_def op_in_def op_nin_def op_exists_def
  js_gt_def js_gte_def js_lt_def js_lte_def array_includes_def rule_match_def

lemma rule_without_path_throws:
  assumes "\<not> nullish (prop_of rule ''condition'')"
    "\<not> truthy (prop_of (prop_of rule ''condition'') ''operator'')"
    "\<forall>p. prop_of (prop_of rule ''condition'') ''field'' \<noteq> JStr p"
  shows "\<exists>e. rule_match rt input rule = Inl e"
proof -
  have "prop_of rule ''condition'' \<noteq> JUndefined" using assms(1) by (auto simp: nullish_def)
  then have "\<not> nullish rule" by (rule prop_defined_not_nullish)
  then have "rule_match rt input rule = evaluateCondition rt (prop_of rule ''condition'') input"
    by (simp add: rule_match_def own_prop_def)
  then show ?thesis using leaf_without_path_throws [OF assms] by simp
qed

subsection \<open>Loading, filtering and sorting\<close>

lemma own_prop_Inr: "own_prop v k = Inr x \<Longrightarrow> \<not> nullish v \<and> x = prop_of v k"
  by (auto simp: own_prop_def split: if_splits)

lemma own_prop_not_nullish: "\<not> nullish v \<Longrightarrow> own_prop v k = Inr (prop_of v k)"
  by (simp add: own_prop_def)

lemma active_rules_not_nullish: "active_rules rt config = Inr rs \<Longrightarrow> \<not> nullish config"
  by (auto simp: active_rules_def and_then_Inr_iff dest: own_prop_Inr)

lemma or_else_truthy: "truthy b \<Longrightarrow> truthy (or_else a b)"
  by (simp add: or_else_def)

lemma loadRules_failure: "load_steps rt env this = Inl e \<Longrightarrow> loadRules rt env this = (this, Inl e)"
  by (auto simp: load_steps_def loadRules_def and_then_Inl_iff)

lemma loadRules_success:
  assumes "readFileSync env (configPath this) = Inr content" "yaml_load env content = Inr config"
    "active_rules rt config = Inr rs"
  shows "loadRules rt env this =
    (this\<lparr>rules := rs,
          defaults := or_else (prop_of config ''defaults'') (JObj [(''no_match_outcome'', JStr GREY_ZONE)]),
          aiConfig := or_else (prop_of config ''ai_config'') (JObj []),
          metadata := or_else (prop_of config ''metadata'') (JObj [])\<rparr>, Inr True)"
  using assms active_rules_not_nullish [OF assms(3)]
  by (simp add: loadRules_def own_prop_not_nullish)

lemma load_steps_cases:
  "(\<exists>e. load_steps rt env this = Inl e) \<or>
   (\<exists>content config rs. readFileSync env (configPath this) = Inr content \<and>
      yaml_load env content = Inr config \<and> active_rules rt config = Inr rs)"
  by (cases "readFileSync env (configPath this)"; simp add: load_steps_def)
     (metis and_then.simps sum.exhaust_sel sum.collapse)

lemma loadRules_Inl:
  assumes "snd (loadRules rt env this) = Inl e"
  shows "load_steps rt env this = Inl e"
  using load_steps_cases [of rt env this] assms
  by (auto simp: loadRules_failure loadRules_success)

lemma same_value_zero_JStr: "same_value_zero (JStr s) v = (v = JStr s)"
  by (cases v) auto






















lemma loaded_defaults_truthy:
  "truthy (or_else d (JObj [(''no_match_outcome'', JStr GREY_ZONE)]))"
  by (simp add: or_else_def)

lemma evaluate_after_load:
  "readFileSync env (configPath this) = Inr content \<and> yaml_load env content = Inr config \<and>
   active_rules rt config = Inr rs \<and> truthy input \<and> typeof_object input \<and>
   (\<forall>r \<in> set rs. no_match rt input r) \<longrightarrow>
     evaluate rt (fst (loadRules rt env this)) input =
       Inr \<lparr>outcome = (if truthy (prop_of config ''defaults'')
                       then prop_of (prop_of config ''defaults'') ''no_match_outcome''
                       else JStr GREY_ZONE),
            matchedRule = None,
            evaluationPath = map (attempt_for rt input) rs\<rparr>"
proof
  assume a: "readFileSync env (configPath this) = Inr content \<and> yaml_load env content = Inr config \<and>
   active_rules rt config = Inr rs \<and> truthy input \<and> typeof_object input \<and>
   (\<forall>r \<in> set rs. no_match rt input r)"
  let ?d = "or_else (prop_of config ''defaults'') (JObj [(''no_match_outcome'', JStr GREY_ZONE)])"
  have l: "fst (loadRules rt env this) =
    this\<lparr>rules := rs, defaults := ?d,
          aiConfig := or_else (prop_of config ''ai_config'') (JObj []),
          metadata := or_else (prop_of config ''metadata'') (JObj [])\<rparr>"
    using a loadRules_success by simp
  have t: "truthy ?d" by (rule loaded_defaults_truthy)
  have o: "prop_of ?d ''no_match_outcome'' =
    (if truthy (prop_of config ''defaults'')
     then prop_of (prop_of config ''defaults'') ''no_match_outcome'' else JStr GREY_ZONE)"
    by (simp add: or_else_def)
  show "evaluate rt (fst (loadRules rt env this)) input =
       Inr \<lparr>outcome = (if truthy (prop_of config ''defaults'')
                       then prop_of (prop_of config ''defaults'') ''no_match_outcome''
                       else JStr GREY_ZONE),
            matchedRule = None,
            evaluationPath = map (attempt_for rt input) rs\<rparr>"
    using a t o by (simp add: l evaluate_def evaluate_rules_none own_prop_truthy del: truthy.simps)
qed

text \<open>
  The defaults of an engine are never null or undefined: they are an object when the
  engine is made, and a load leaves them or assigns a truthy value.
\<close>

lemma defaults_truthy:
  "truthy (defaults (new_RuleEngine path))"
  "truthy (defaults this) \<Longrightarrow> truthy (defaults (fst (loadRules rt env this)))"
proof -
  show "truthy (defaults (new_RuleEngine path))" by (simp add: new_RuleEngine_def)
  assume t: "truthy (defaults this)"
  consider (failed) e where "load_steps rt env this = Inl e"
    | (loaded) content config rs where "readFileSync env (configPath this) = Inr content"
        "yaml_load env content = Inr config" "active_rules rt config = Inr rs"
    using load_steps_cases [of rt env this] by blast
  then show "truthy (defaults (fst (loadRules rt env this)))"
  proof cases
    case failed
    then show ?thesis using t by (simp add: loadRules_failure)
  next
    case loaded
    then show ?thesis using loaded_defaults_truthy by (simp add: loadRules_success del: truthy.simps)
  qed
qed

lemmas concrete_load =
  load_steps_def active_rules_def rule_is_active_def own_prop_def nullish_def or_else_def
  array_includes_def OUTCOMES_values_def SAFE_ALLOW_def SAFE_DENY_def GREY_ZONE_def
  sort_rules_def priority_operand_def by_priority_def to_number_def

subsection \<open>The decision service\<close>

lemma validateInput_Valid:
  "validateInput input = Valid \<longleftrightarrow>
     truthy input \<and> typeof_object input \<and>
     truthy (prop_of input ''request'') \<and> typeof_object (prop_of input ''request'') \<and>
     truthy (prop_of input ''signals'') \<and> typeof_object (prop_of input ''signals'')"
  by (auto simp: validateInput_def)

lemma decide_invalid:
  "validateInput input = Invalid err \<Longrightarrow>
   decide rt this input requestId = (buildErrorResponse this err requestId, [])"
  by (simp add: decide_def)

lemma needsAI_iff:
  "(strict_eq (outcome r) (JStr GREY_ZONE) \<and> version this = ''v2'' \<and> isEnabled (aiAnalyzer this)) =
   (outcome r = JStr GREY_ZONE \<and> version this = ''v2'' \<and> isEnabled (aiAnalyzer this))"
  by (simp add: strict_eq_JStr)



section \<open>Properties of the condition evaluator\<close>




text \<open>
  C8. \<^verbatim>\<open>getValue\<close> reads one segment of the path after the other by ordinary property
  access. When, on the way through the mappings of the input, a mapping has no key for
  the next segment and inherits nothing under that name, the path resolves to the missing
  value \<^verbatim>\<open>undefined\<close>; so it does when the value reached at a segment is falsy (null,
  false, 0, the empty string). The missing value is not null and not false: a path that
  leads through the mappings to a stored value resolves to that value as it is, an
  explicit null or false included. The resolution throws only what reading an inherited
  property at one of the segments throws. A leaf condition on an absent path is matched
  by \<^verbatim>\<open>exists\<close> with value false, and is not matched by \<^verbatim>\<open>eq\<close> against any value other
  than \<^verbatim>\<open>undefined\<close>.
\<close>

theorem getValue_missing:
  "(absent_path rt input (split_dot path) \<longrightarrow> getValue rt input (JStr path) = Inr JUndefined) \<and>
   (own_path input (split_dot path) = Some v \<longrightarrow> getValue rt input (JStr path) = Inr v) \<and>
   (split_dot path = pre @ key # post \<and> own_path input pre = Some cur \<and> \<not> truthy cur \<longrightarrow>
      getValue rt input (JStr path) = Inr JUndefined) \<and>
   (getValue rt input (JStr path) = Inl e \<longrightarrow>
      (\<exists>w k. k \<in> set (split_dot path) \<and> inherited rt w k = Inl e)) \<and>
   (absent_path rt input (split_dot path) \<and> prop_of c ''field'' = JStr path \<and>
    \<not> truthy (prop_of c ''operator'') \<longrightarrow>
      (prop_of c ''op'' = JStr ''exists'' \<and> prop_of c ''value'' = JBool False \<longrightarrow>
         evaluateCondition rt c input = Inr (JBool True)) \<and>
      (prop_of c ''op'' = JStr ''eq'' \<and> prop_of c ''value'' \<noteq> JUndefined \<longrightarrow>
         evaluateCondition rt c input = Inr (JBool False)))"
proof (intro conjI impI)
  assume "absent_path rt input (split_dot path)"
  then show "getValue rt input (JStr path) = Inr JUndefined"
    by (simp add: absent_path_resolves)
next
  assume "own_path input (split_dot path) = Some v"
  then show "getValue rt input (JStr path) = Inr v"
    by (simp add: own_path_resolves)
next
  assume "split_dot path = pre @ key # post \<and> own_path input pre = Some cur \<and> \<not> truthy cur"
  then show "getValue rt input (JStr path) = Inr JUndefined"
    using falsy_container [of input pre cur rt key post] by simp
next
  assume "getValue rt input (JStr path) = Inl e"
  then show "\<exists>w k. k \<in> set (split_dot path) \<and> inherited rt w k = Inl e"
    using getValue_reduce_error [of rt input "split_dot path" e] by simp
next
  assume a: "absent_path rt input (split_dot path) \<and> prop_of c ''field'' = JStr path \<and>
    \<not> truthy (prop_of c ''operator'')"
  assume b: "prop_of c ''op'' = JStr ''exists'' \<and> prop_of c ''value'' = JBool False"
  have "getValue_reduce rt input (split_dot path) = Inr JUndefined"
    using a by (simp add: absent_path_resolves)
  then have "evaluateCondition rt c input =
    (case op_exists JUndefined (prop_of c ''value'') of Inl e \<Rightarrow> Inr (JBool False) | Inr r \<Rightarrow> Inr r)"
    using a b OPERATORS_exists by (intro leaf_on_path) simp_all
  with b show "evaluateCondition rt c input = Inr (JBool True)"
    by (simp add: op_exists_def)
next
  assume a: "absent_path rt input (split_dot path) \<and> prop_of c ''field'' = JStr path \<and>
    \<not> truthy (prop_of c ''operator'')"
  assume b: "prop_of c ''op'' = JStr ''eq'' \<and> prop_of c ''value'' \<noteq> JUndefined"
  have "getValue_reduce rt input (split_dot path) = Inr JUndefined"
    using a by (simp add: absent_path_resolves)
  then have "evaluateCondition rt c input =
    (case op_eq JUndefined (prop_of c ''value'') of Inl e \<Rightarrow> Inr (JBool False) | Inr r \<Rightarrow> Inr r)"
    using a b OPERATORS_eq by (intro leaf_on_path) simp_all
  with b show "evaluateCondition rt c input = Inr (JBool False)"
    by (simp add: op_eq_def strict_eq_undefined)
qed

theorem getValue_missing_witness:
  "getValue sample_runtime
     (JObj [(''request'', JObj []), (''signals'', JObj [(''flag'', JNull), (''off'', JBool False)])])
     (JStr ''request.user.id'') = Inr JUndefined \<and>
   getValue sample_runtime
     (JObj [(''request'', JObj []), (''signals'', JObj [(''flag'', JNull), (''off'', JBool False)])])
     (JStr ''signals.flag'') = Inr JNull \<and>
   getValue sample_runtime
     (JObj [(''request'', JObj []), (''signals'', JObj [(''flag'', JNull), (''off'', JBool False)])])
     (JStr ''signals.off'') = Inr (JBool False) \<and>
   getValue sample_runtime
     (JObj [(''request'', JObj []), (''signals'', JObj [(''flag'', JNull), (''off'', JBool False)])])
     (JStr ''signals.flag.kind'') = Inr JUndefined \<and>
   (\<exists>w k. k \<in> set (split_dot ''request.constructor.caller'') \<and>
      inherited sample_runtime w k =
        Inl (TypeError ''the caller, callee, and arguments properties may not be accessed on strict mode functions or the arguments objects for calls to them'')) \<and>
   evaluateCondition sample_runtime
     (JObj [(''field'', JStr ''request.user.id''), (''op'', JStr ''exists''), (''value'', JBool False)])
     (JObj [(''request'', JObj []), (''signals'', JObj [(''flag'', JNull), (''off'', JBool False)])]) =
   Inr (JBool True) \<and>
   evaluateCondition sample_runtime
     (JObj [(''field'', JStr ''request.user.id''), (''op'', JStr ''eq''), (''value'', JStr ''u1'')])
     (JObj [(''request'', JObj []), (''signals'', JObj [(''flag'', JNull), (''off'', JBool False)])]) =
   Inr (JBool False)"
proof -
  let ?input = "JObj [(''request'', JObj []), (''signals'', JObj [(''flag'', JNull), (''off'', JBool False)])]"
  let ?ex = "JObj [(''field'', JStr ''request.user.id''), (''op'', JStr ''exists''), (''value'', JBool False)]"
  let ?eq = "JObj [(''field'', JStr ''request.user.id''), (''op'', JStr ''eq''), (''value'', JStr ''u1'')]"
  let ?thrown = "TypeError ''the caller, callee, and arguments properties may not be accessed on strict mode functions or the arguments objects for calls to them''"
  have ab: "absent_path sample_runtime ?input (split_dot ''request.user.id'')"
    by (simp add: sample_runtime_def)
  have 1: "getValue sample_runtime ?input (JStr ''request.user.id'') = Inr JUndefined"
    using getValue_missing [where rt = sample_runtime and input = ?input
        and path = "''request.user.id''"] ab
    by blast
  have o2: "own_path ?input (split_dot ''signals.flag'') = Some JNull" by simp
  have 2: "getValue sample_runtime ?input (JStr ''signals.flag'') = Inr JNull"
    using getValue_missing [where rt = sample_runtime and input = ?input
        and path = "''signals.flag''" and v = JNull] o2
    by blast
  have o3: "own_path ?input (split_dot ''signals.off'') = Some (JBool False)" by simp
  have 3: "getValue sample_runtime ?input (JStr ''signals.off'') = Inr (JBool False)"
    using getValue_missing [where rt = sample_runtime and input = ?input
        and path = "''signals.off''" and v = "JBool False"] o3
    by blast
  have s4: "split_dot ''signals.flag.kind'' = [''signals'', ''flag''] @ ''kind'' # []" by simp
  have o4: "own_path ?input [''signals'', ''flag''] = Some JNull" by simp
  have 4: "getValue sample_runtime ?input (JStr ''signals.flag.kind'') = Inr JUndefined"
    using getValue_missing [where rt = sample_runtime and input = ?input
        and path = "''signals.flag.kind''" and pre = "[''signals'', ''flag'']" and key = "''kind''"
        and post = "[]" and cur = JNull] s4 o4
    by simp
  have t5: "getValue sample_runtime ?input (JStr ''request.constructor.caller'') = Inl ?thrown"
    by (simp add: getValue_step_def sample_runtime_def)
  have 5: "\<exists>w k. k \<in> set (split_dot ''request.constructor.caller'') \<and>
      inherited sample_runtime w k = Inl ?thrown"
    using getValue_missing [where rt = sample_runtime and input = ?input
        and path = "''request.constructor.caller''" and e = ?thrown] t5
    by blast
  have 6: "evaluateCondition sample_runtime ?ex ?input = Inr (JBool True)"
    using getValue_missing [where rt = sample_runtime and input = ?input
        and path = "''request.user.id''" and c = ?ex] ab
    by simp
  have 7: "evaluateCondition sample_runtime ?eq ?input = Inr (JBool False)"
    using getValue_missing [where rt = sample_runtime and input = ?input
        and path = "''request.user.id''" and c = ?eq] ab
    by simp
  from 1 2 3 4 5 6 7 show ?thesis by blast
qed

text \<open>
  A container that is a string: the segment \<^verbatim>\<open>length\<close> of \<^verbatim>\<open>request.name.length\<close> is
  read from the string \<^verbatim>\<open>"abc"\<close> and resolves to 3, not to the missing value. And a
  resolution that throws: \<^verbatim>\<open>request.constructor\<close> is the built-in function
  \<^verbatim>\<open>Object\<close>, which every object inherits, and reading \<^verbatim>\<open>caller\<close> from it throws a
  TypeError.
\<close>

theorem getValue_string_container_counterexample:
  "getValue sample_runtime (JObj [(''request'', JObj [(''name'', JStr ''abc'')]), (''signals'', JObj [])])
     (JStr ''request.name'') = Inr (JStr ''abc'') \<and>
   getValue sample_runtime (JObj [(''request'', JObj [(''name'', JStr ''abc'')]), (''signals'', JObj [])])
     (JStr ''request.name.length'') = Inr (JNum (Fin 3)) \<and>
   getValue sample_runtime (JObj [(''request'', JObj [(''name'', JStr ''abc'')]), (''signals'', JObj [])])
     (JStr ''request.constructor.caller'') =
   Inl (TypeError ''the caller, callee, and arguments properties may not be accessed on strict mode functions or the arguments objects for calls to them'')"
  by (simp add: getValue_step_def sample_runtime_def)







section \<open>Properties of rule evaluation\<close>

text \<open>
  C2. On an input that is an object, \<^verbatim>\<open>evaluate\<close> goes through the rules in their stored
  order and appends one attempt for each rule whose condition it has evaluated. At the
  first rule whose condition matches it stops: it returns that rule's outcome and its id,
  name and priority, and the evaluation path ends with that rule, whatever rules follow. If
  no rule matches it returns \<^verbatim>\<open>defaults.no_match_outcome\<close> with no matched rule, and the
  path has one attempt for every rule. A condition matches when it evaluates to a truthy
  value, and does not match when it evaluates to a falsy one. A condition whose evaluation
  throws is neither: when the rules before such a rule do not match, \<^verbatim>\<open>evaluate\<close> throws
  the same error, and returns neither the outcome of a later rule that matches nor the
  default outcome. A rule whose condition is a leaf without a string \<^verbatim>\<open>field\<close> is such a
  rule on every input.
\<close>

theorem evaluate_first_match_or_throw:
  "truthy input \<and> typeof_object input \<longrightarrow>
     (rules this = pre @ rule # post \<and> (\<forall>r \<in> set pre. no_match rt input r) \<and>
      is_match rt input rule \<longrightarrow>
        evaluate rt this input =
          Inr \<lparr>outcome = prop_of rule ''outcome'',
               matchedRule = Some \<lparr>rule_id = prop_of rule ''id'', rule_name = prop_of rule ''name'',
                                     rule_priority = prop_of rule ''priority''\<rparr>,
               evaluationPath = map (attempt_for rt input) pre @ [attempt_for rt input rule]\<rparr>) \<and>
     (truthy (defaults this) \<and> (\<forall>r \<in> set (rules this). no_match rt input r) \<longrightarrow>
        evaluate rt this input =
          Inr \<lparr>outcome = prop_of (defaults this) ''no_match_outcome'', matchedRule = None,
               evaluationPath = map (attempt_for rt input) (rules this)\<rparr>) \<and>
     (rules this = pre @ rule # post \<and> (\<forall>r \<in> set pre. no_match rt input r) \<and>
      rule_match rt input rule = Inl e \<longrightarrow>
        evaluate rt this input = Inl e) \<and>
     (rules this = pre @ rule # post \<and> (\<forall>r \<in> set pre. no_match rt input r) \<and>
      \<not> nullish (prop_of rule ''condition'') \<and>
      \<not> truthy (prop_of (prop_of rule ''condition'') ''operator'') \<and>
      (\<forall>p. prop_of (prop_of rule ''condition'') ''field'' \<noteq> JStr p) \<longrightarrow>
        (\<exists>thrown. evaluate rt this input = Inl thrown))"
proof (intro impI conjI)
  assume i: "truthy input \<and> typeof_object input"
  assume a: "rules this = pre @ rule # post \<and> (\<forall>r \<in> set pre. no_match rt input r) \<and>
      \<not> nullish (prop_of rule ''condition'') \<and>
      \<not> truthy (prop_of (prop_of rule ''condition'') ''operator'') \<and>
      (\<forall>p. prop_of (prop_of rule ''condition'') ''field'' \<noteq> JStr p)"
  then obtain thrown where "rule_match rt input rule = Inl thrown"
    using rule_without_path_throws [of rule rt input] by blast
  with i a have "evaluate rt this input = Inl thrown"
    by (simp add: evaluate_def evaluate_rules_first_throw)
  then show "\<exists>thrown. evaluate rt this input = Inl thrown" by blast
qed (simp_all add: evaluate_def evaluate_rules_first_match evaluate_rules_none own_prop_truthy
        evaluate_rules_first_throw)

theorem evaluate_first_match_or_throw_witness:
  "evaluate sample_runtime
     \<lparr>configPath = ''config/rules.yaml'',
      rules = [JObj [(''id'', JStr ''r0''), (''name'', JStr ''blocked country''), (''priority'', JNum (Fin 20)),
                     (''condition'', JObj [(''field'', JStr ''request.country''), (''op'', JStr ''in''),
                                           (''value'', JArr [JStr ''XX''])]),
                     (''outcome'', JStr ''SAFE_ALLOW'')],
               JObj [(''id'', JStr ''r1''), (''priority'', JNum (Fin 10)),
                     (''condition'', JObj [(''field'', JStr ''signals.score''), (''op'', JStr ''gte''),
                                           (''value'', JNum (Fin 80))]),
                     (''outcome'', JStr ''SAFE_DENY'')],
               JObj [(''id'', JStr ''r2''), (''priority'', JNum (Fin 5)),
                     (''condition'', JObj [(''operator'', JStr ''AND''), (''operands'', JArr [])]),
                     (''outcome'', JStr ''SAFE_ALLOW'')]],
      defaults = JObj [(''no_match_outcome'', JStr ''GREY_ZONE'')],
      aiConfig = JObj [], metadata = JObj []\<rparr>
     (JObj [(''request'', JObj []), (''signals'', JObj [(''score'', JNum (Fin 90))])]) =
   Inr \<lparr>outcome = JStr ''SAFE_DENY'',
        matchedRule = Some \<lparr>rule_id = JStr ''r1'', rule_name = JUndefined,
                              rule_priority = JNum (Fin 10)\<rparr>,
        evaluationPath = [Attempt (JStr ''r0'') (JStr ''blocked country'') (JBool False),
                          Attempt (JStr ''r1'') JUndefined (JBool True)]\<rparr> \<and>
   evaluate sample_runtime
     \<lparr>configPath = ''config/rules.yaml'',
      rules = [JObj [(''id'', JStr ''r0''), (''name'', JStr ''blocked country''), (''priority'', JNum (Fin 20)),
                     (''condition'', JObj [(''field'', JStr ''request.country''), (''op'', JStr ''in''),
                                           (''value'', JArr [JStr ''XX''])]),
                     (''outcome'', JStr ''SAFE_ALLOW'')]],
      defaults = JObj [(''no_match_outcome'', JStr ''GREY_ZONE'')],
      aiConfig = JObj [], metadata = JObj []\<rparr>
     (JObj [(''request'', JObj []), (''signals'', JObj [(''score'', JNum (Fin 90))])]) =
   Inr \<lparr>outcome = JStr ''GREY_ZONE'', matchedRule = None,
        evaluationPath = [Attempt (JStr ''r0'') (JStr ''blocked country'') (JBool False)]\<rparr> \<and>
   active_rules sample_runtime (JObj [(''rules'', JArr
     [JObj [(''id'', JStr ''r0''), (''name'', JStr ''blocked country''), (''priority'', JNum (Fin 20)),
            (''condition'', JObj [(''field'', JStr ''request.country''), (''op'', JStr ''in''),
                                  (''value'', JArr [JStr ''XX''])]),
            (''outcome'', JStr ''SAFE_ALLOW'')],
      JObj [(''id'', JStr ''bad''), (''priority'', JNum (Fin 15)),
            (''condition'', JObj [(''op'', JStr ''eq''), (''value'', JNum (Fin 1))]),
            (''outcome'', JStr ''SAFE_DENY'')],
      JObj [(''id'', JStr ''r1''), (''priority'', JNum (Fin 10)),
            (''condition'', JObj [(''field'', JStr ''signals.score''), (''op'', JStr ''gte''),
                                  (''value'', JNum (Fin 80))]),
            (''outcome'', JStr ''SAFE_DENY'')]])]) =
   Inr
     [JObj [(''id'', JStr ''r0''), (''name'', JStr ''blocked country''), (''priority'', JNum (Fin 20)),
            (''condition'', JObj [(''field'', JStr ''request.country''), (''op'', JStr ''in''),
                                  (''value'', JArr [JStr ''XX''])]),
            (''outcome'', JStr ''SAFE_ALLOW'')],
      JObj [(''id'', JStr ''bad''), (''priority'', JNum (Fin 15)),
            (''condition'', JObj [(''op'', JStr ''eq''), (''value'', JNum (Fin 1))]),
            (''outcome'', JStr ''SAFE_DENY'')],
      JObj [(''id'', JStr ''r1''), (''priority'', JNum (Fin 10)),
            (''condition'', JObj [(''field'', JStr ''signals.score''), (''op'', JStr ''gte''),
                                  (''value'', JNum (Fin 80))]),
            (''outcome'', JStr ''SAFE_DENY'')]] \<and>
   is_match sample_runtime
     (JObj [(''request'', JObj []), (''signals'', JObj [(''score'', JNum (Fin 90))])])
     (JObj [(''id'', JStr ''r1''), (''priority'', JNum (Fin 10)),
            (''condition'', JObj [(''field'', JStr ''signals.score''), (''op'', JStr ''gte''),
                                  (''value'', JNum (Fin 80))]),
            (''outcome'', JStr ''SAFE_DENY'')]) \<and>
   evaluate sample_runtime
     \<lparr>configPath = ''config/rules.yaml'',
      rules = [JObj [(''id'', JStr ''r0''), (''name'', JStr ''blocked country''), (''priority'', JNum (Fin 20)),
                     (''condition'', JObj [(''field'', JStr ''request.country''), (''op'', JStr ''in''),
                                           (''value'', JArr [JStr ''XX''])]),
                     (''outcome'', JStr ''SAFE_ALLOW'')],
               JObj [(''id'', JStr ''bad''), (''priority'', JNum (Fin 15)),
                     (''condition'', JObj [(''op'', JStr ''eq''), (''value'', JNum (Fin 1))]),
                     (''outcome'', JStr ''SAFE_DENY'')],
               JObj [(''id'', JStr ''r1''), (''priority'', JNum (Fin 10)),
                     (''condition'', JObj [(''field'', JStr ''signals.score''), (''op'', JStr ''gte''),
                                           (''value'', JNum (Fin 80))]),
                     (''outcome'', JStr ''SAFE_DENY'')]],
      defaults = JObj [(''no_match_outcome'', JStr ''GREY_ZONE'')],
      aiConfig = JObj [], metadata = JObj []\<rparr>
     (JObj [(''request'', JObj []), (''signals'', JObj [(''score'', JNum (Fin 90))])]) =
   Inl (TypeError (''Cannot read properties of undefined (reading '' @ [CHR 0x27] @ ''split'' @ [CHR 0x27] @ '')''))"
proof -
  let ?r0 = "JObj [(''id'', JStr ''r0''), (''name'', JStr ''blocked country''), (''priority'', JNum (Fin 20)),
                     (''condition'', JObj [(''field'', JStr ''request.country''), (''op'', JStr ''in''),
                                           (''value'', JArr [JStr ''XX''])]),
                     (''outcome'', JStr ''SAFE_ALLOW'')]"
  let ?bad = "JObj [(''id'', JStr ''bad''), (''priority'', JNum (Fin 15)),
                     (''condition'', JObj [(''op'', JStr ''eq''), (''value'', JNum (Fin 1))]),
                     (''outcome'', JStr ''SAFE_DENY'')]"
  let ?r1 = "JObj [(''id'', JStr ''r1''), (''priority'', JNum (Fin 10)),
                     (''condition'', JObj [(''field'', JStr ''signals.score''), (''op'', JStr ''gte''),
                                           (''value'', JNum (Fin 80))]),
                     (''outcome'', JStr ''SAFE_DENY'')]"
  let ?r2 = "JObj [(''id'', JStr ''r2''), (''priority'', JNum (Fin 5)),
                     (''condition'', JObj [(''operator'', JStr ''AND''), (''operands'', JArr [])]),
                     (''outcome'', JStr ''SAFE_ALLOW'')]"
  let ?d = "JObj [(''no_match_outcome'', JStr ''GREY_ZONE'')]"
  let ?input = "JObj [(''request'', JObj []), (''signals'', JObj [(''score'', JNum (Fin 90))])]"
  let ?e3 = "\<lparr>configPath = ''config/rules.yaml'', rules = [?r0, ?r1, ?r2], defaults = ?d,
      aiConfig = JObj [], metadata = JObj []\<rparr>"
  let ?e1 = "\<lparr>configPath = ''config/rules.yaml'', rules = [?r0], defaults = ?d,
      aiConfig = JObj [], metadata = JObj []\<rparr>"
  let ?eb = "\<lparr>configPath = ''config/rules.yaml'', rules = [?r0, ?bad, ?r1], defaults = ?d,
      aiConfig = JObj [], metadata = JObj []\<rparr>"
  let ?thrown = "TypeError (''Cannot read properties of undefined (reading '' @ [CHR 0x27] @ ''split'' @ [CHR 0x27] @ '')'')"
  have m0: "rule_match sample_runtime ?input ?r0 = Inr (JBool False)"
    by (simp add: concrete_evaluation sample_runtime_def)
  have m1: "rule_match sample_runtime ?input ?r1 = Inr (JBool True)"
    by (simp add: concrete_evaluation)
  have mb: "rule_match sample_runtime ?input ?bad = Inl ?thrown"
    by (simp add: concrete_evaluation cannot_read_def)
  have n0: "no_match sample_runtime ?input ?r0" using m0 by (simp add: no_match_def)
  have y1: "is_match sample_runtime ?input ?r1" using m1 by (simp add: is_match_def)
  have a0: "attempt_for sample_runtime ?input ?r0 = Attempt (JStr ''r0'') (JStr ''blocked country'') (JBool False)"
    using m0 by (simp add: attempt_for_def)
  have a1: "attempt_for sample_runtime ?input ?r1 = Attempt (JStr ''r1'') JUndefined (JBool True)"
    using m1 by (simp add: attempt_for_def)
  have 1: "evaluate sample_runtime ?e3 ?input =
     Inr \<lparr>outcome = JStr ''SAFE_DENY'',
        matchedRule = Some \<lparr>rule_id = JStr ''r1'', rule_name = JUndefined,
                              rule_priority = JNum (Fin 10)\<rparr>,
        evaluationPath = [Attempt (JStr ''r0'') (JStr ''blocked country'') (JBool False),
                          Attempt (JStr ''r1'') JUndefined (JBool True)]\<rparr>"
    using evaluate_first_match_or_throw [where input = ?input and this = ?e3 and pre = "[?r0]"
        and rule = ?r1 and post = "[?r2]" and rt = sample_runtime] n0 y1 a0 a1
    by simp
  have 2: "evaluate sample_runtime ?e1 ?input =
     Inr \<lparr>outcome = JStr ''GREY_ZONE'', matchedRule = None,
        evaluationPath = [Attempt (JStr ''r0'') (JStr ''blocked country'') (JBool False)]\<rparr>"
    using evaluate_first_match_or_throw [where input = ?input and this = ?e1 and rt = sample_runtime]
      n0 a0
    by simp
  have 3: "active_rules sample_runtime (JObj [(''rules'', JArr [?r0, ?bad, ?r1])]) =
      Inr [?r0, ?bad, ?r1]"
    by (simp add: concrete_load)
  have 4: "evaluate sample_runtime ?eb ?input = Inl ?thrown"
    using evaluate_first_match_or_throw [where input = ?input and this = ?eb and pre = "[?r0]"
        and rule = ?bad and post = "[?r1]" and rt = sample_runtime and e = ?thrown] n0 mb
    by simp
  from 1 2 3 y1 4 show ?thesis by blast
qed

section \<open>Properties of loading\<close>

text \<open>
  C3. A load fails exactly when one of its steps fails: reading the source, parsing the
  document, or filtering and sorting its rules. When it fails, the engine is exactly as it
  was before the attempt (the rule set, the defaults and the rest of its state), and
  \<^verbatim>\<open>reloadRules\<close> leaves the service unchanged and returns \<^verbatim>\<open>success: false\<close> with the
  message of the error.
\<close>

theorem failed_load_keeps_state:
  "(snd (loadRules rt env (ruleEngine svc)) = Inl e \<longleftrightarrow> load_steps rt env (ruleEngine svc) = Inl e) \<and>
   (snd (loadRules rt env (ruleEngine svc)) = Inl e \<longrightarrow>
      fst (loadRules rt env (ruleEngine svc)) = ruleEngine svc \<and>
      reloadRules rt env svc =
        (svc, \<lparr>success = False, rulesCount = None, reload_error = Some (message e)\<rparr>))"
proof (intro conjI impI)
  show "snd (loadRules rt env (ruleEngine svc)) = Inl e \<longleftrightarrow> load_steps rt env (ruleEngine svc) = Inl e"
    using loadRules_Inl loadRules_failure by (metis snd_conv)
next
  assume "snd (loadRules rt env (ruleEngine svc)) = Inl e"
  then have l: "loadRules rt env (ruleEngine svc) = (ruleEngine svc, Inl e)"
    using loadRules_Inl loadRules_failure by blast
  then show "fst (loadRules rt env (ruleEngine svc)) = ruleEngine svc" by simp
  from l show "reloadRules rt env svc =
        (svc, \<lparr>success = False, rulesCount = None, reload_error = Some (message e)\<rparr>)"
    by (simp add: reloadRules_def)
qed

theorem failed_load_keeps_state_witness:
  "reloadRules sample_runtime
     \<lparr>readFileSync = (\<lambda>path. Inl (IOError ''ENOENT: no such file or directory'')),
      yaml_load = (\<lambda>content. Inr JUndefined)\<rparr>
     (sample_service
        \<lparr>configPath = ''config/rules.yaml'',
         rules = [JObj [(''id'', JStr ''r1''), (''condition'', JObj [(''operator'', JStr ''AND''), (''operands'', JArr [])]), (''outcome'', JStr ''SAFE_DENY'')]],
         defaults = JObj [(''no_match_outcome'', JStr ''SAFE_ALLOW'')],
         aiConfig = JObj [], metadata = JObj []\<rparr>) =
   (sample_service
        \<lparr>configPath = ''config/rules.yaml'',
         rules = [JObj [(''id'', JStr ''r1''), (''condition'', JObj [(''operator'', JStr ''AND''), (''operands'', JArr [])]), (''outcome'', JStr ''SAFE_DENY'')]],
         defaults = JObj [(''no_match_outcome'', JStr ''SAFE_ALLOW'')],
         aiConfig = JObj [], metadata = JObj []\<rparr>,
    \<lparr>success = False, rulesCount = None,
     reload_error = Some ''ENOENT: no such file or directory''\<rparr>) \<and>
   reloadRules sample_runtime
     \<lparr>readFileSync = (\<lambda>path. Inr ''rules: [''),
      yaml_load = (\<lambda>content. Inl (YAMLException ''unexpected end of the stream within a flow collection''))\<rparr>
     (sample_service
        \<lparr>configPath = ''config/rules.yaml'',
         rules = [JObj [(''id'', JStr ''r1''), (''condition'', JObj [(''operator'', JStr ''AND''), (''operands'', JArr [])]), (''outcome'', JStr ''SAFE_DENY'')]],
         defaults = JObj [(''no_match_outcome'', JStr ''SAFE_ALLOW'')],
         aiConfig = JObj [], metadata = JObj []\<rparr>) =
   (sample_service
        \<lparr>configPath = ''config/rules.yaml'',
         rules = [JObj [(''id'', JStr ''r1''), (''condition'', JObj [(''operator'', JStr ''AND''), (''operands'', JArr [])]), (''outcome'', JStr ''SAFE_DENY'')]],
         defaults = JObj [(''no_match_outcome'', JStr ''SAFE_ALLOW'')],
         aiConfig = JObj [], metadata = JObj []\<rparr>,
    \<lparr>success = False, rulesCount = None,
     reload_error = Some ''unexpected end of the stream within a flow collection''\<rparr>) \<and>
   reloadRules sample_runtime
     \<lparr>readFileSync = (\<lambda>path. Inr ''rules: [null]''),
      yaml_load = (\<lambda>content. Inr (JObj [(''rules'', JArr [JNull])]))\<rparr>
     (sample_service
        \<lparr>configPath = ''config/rules.yaml'',
         rules = [JObj [(''id'', JStr ''r1''), (''condition'', JObj [(''operator'', JStr ''AND''), (''operands'', JArr [])]), (''outcome'', JStr ''SAFE_DENY'')]],
         defaults = JObj [(''no_match_outcome'', JStr ''SAFE_ALLOW'')],
         aiConfig = JObj [], metadata = JObj []\<rparr>) =
   (sample_service
        \<lparr>configPath = ''config/rules.yaml'',
         rules = [JObj [(''id'', JStr ''r1''), (''condition'', JObj [(''operator'', JStr ''AND''), (''operands'', JArr [])]), (''outcome'', JStr ''SAFE_DENY'')]],
         defaults = JObj [(''no_match_outcome'', JStr ''SAFE_ALLOW'')],
         aiConfig = JObj [], metadata = JObj []\<rparr>,
    \<lparr>success = False, rulesCount = None,
     reload_error = Some (''Cannot read properties of null (reading '' @ [CHR 0x27] @ ''id'' @ [CHR 0x27] @ '')'')\<rparr>)"
proof -
  let ?r1 = "JObj [(''id'', JStr ''r1''), (''condition'', JObj [(''operator'', JStr ''AND''), (''operands'', JArr [])]), (''outcome'', JStr ''SAFE_DENY'')]"
  let ?engine = "\<lparr>configPath = ''config/rules.yaml'', rules = [?r1],
         defaults = JObj [(''no_match_outcome'', JStr ''SAFE_ALLOW'')],
         aiConfig = JObj [], metadata = JObj []\<rparr>"
  let ?svc = "sample_service ?engine"
  let ?env1 = "\<lparr>readFileSync = (\<lambda>path. Inl (IOError ''ENOENT: no such file or directory'')),
      yaml_load = (\<lambda>content. Inr JUndefined)\<rparr>"
  let ?env2 = "\<lparr>readFileSync = (\<lambda>path. Inr ''rules: [''),
      yaml_load = (\<lambda>content. Inl (YAMLException ''unexpected end of the stream within a flow collection''))\<rparr>"
  let ?env3 = "\<lparr>readFileSync = (\<lambda>path. Inr ''rules: [null]''),
      yaml_load = (\<lambda>content. Inr (JObj [(''rules'', JArr [JNull])]))\<rparr>"
  have e: "ruleEngine ?svc = ?engine" by (simp add: sample_service_def)
  have s1: "load_steps sample_runtime ?env1 (ruleEngine ?svc) =
      Inl (IOError ''ENOENT: no such file or directory'')"
    by (simp add: load_steps_def)
  have s2: "load_steps sample_runtime ?env2 (ruleEngine ?svc) =
      Inl (YAMLException ''unexpected end of the stream within a flow collection'')"
    by (simp add: load_steps_def)
  have s3: "load_steps sample_runtime ?env3 (ruleEngine ?svc) =
      Inl (TypeError (''Cannot read properties of null (reading '' @ [CHR 0x27] @ ''id'' @ [CHR 0x27] @ '')''))"
    by (simp add: concrete_load cannot_read_def)
  have 1: "reloadRules sample_runtime ?env1 ?svc =
      (?svc, \<lparr>success = False, rulesCount = None,
               reload_error = Some ''ENOENT: no such file or directory''\<rparr>)"
    using failed_load_keeps_state [of sample_runtime ?env1 ?svc
        "IOError ''ENOENT: no such file or directory''"] s1
    by simp
  have 2: "reloadRules sample_runtime ?env2 ?svc =
      (?svc, \<lparr>success = False, rulesCount = None,
               reload_error = Some ''unexpected end of the stream within a flow collection''\<rparr>)"
    using failed_load_keeps_state [of sample_runtime ?env2 ?svc
        "YAMLException ''unexpected end of the stream within a flow collection''"] s2
    by simp
  have 3: "reloadRules sample_runtime ?env3 ?svc =
      (?svc, \<lparr>success = False, rulesCount = None,
               reload_error = Some (''Cannot read properties of null (reading '' @ [CHR 0x27] @ ''id'' @ [CHR 0x27] @ '')'')\<rparr>)"
    using failed_load_keeps_state [of sample_runtime ?env3 ?svc
        "TypeError (''Cannot read properties of null (reading '' @ [CHR 0x27] @ ''id'' @ [CHR 0x27] @ '')'')"] s3
    by simp
  from 1 2 3 show ?thesis by blast
qed




text \<open>
  C9. After a successful load, the outcome returned when no rule matches is GREY_ZONE if
  the configuration has no \<^verbatim>\<open>defaults\<close> section. If it has one, the outcome is that
  section's \<^verbatim>\<open>no_match_outcome\<close>, and so it is \<^verbatim>\<open>undefined\<close>, not GREY_ZONE, when the
  section lacks the key.
\<close>

theorem default_outcome_after_load:
  "readFileSync env (configPath this) = Inr content \<and> yaml_load env content = Inr config \<and>
   active_rules rt config = Inr rs \<and> truthy input \<and> typeof_object input \<and>
   (\<forall>r \<in> set rs. no_match rt input r) \<longrightarrow>
     (\<exists>res. evaluate rt (fst (loadRules rt env this)) input = Inr res \<and>
        matchedRule res = None \<and>
        (\<not> truthy (prop_of config ''defaults'') \<longrightarrow> outcome res = JStr GREY_ZONE) \<and>
        (truthy (prop_of config ''defaults'') \<longrightarrow>
           outcome res = prop_of (prop_of config ''defaults'') ''no_match_outcome''))"
  using evaluate_after_load [of env this content config rt rs input] by simp

theorem default_outcome_after_load_witness:
  "(\<exists>res. evaluate sample_runtime
       (fst (loadRules sample_runtime
          \<lparr>readFileSync = (\<lambda>path. Inr ''{rules: [], defaults: {}}''),
           yaml_load = (\<lambda>content. Inr (JObj [(''rules'', JArr []), (''defaults'', JObj [])]))\<rparr>
          (new_RuleEngine ''config/rules.yaml'')))
       (JObj [(''request'', JObj []), (''signals'', JObj [])]) = Inr res \<and>
     matchedRule res = None \<and> outcome res = JUndefined) \<and>
   (\<exists>res. evaluate sample_runtime
       (fst (loadRules sample_runtime
          \<lparr>readFileSync = (\<lambda>path. Inr ''rules: []''),
           yaml_load = (\<lambda>content. Inr (JObj [(''rules'', JArr [])]))\<rparr>
          (new_RuleEngine ''config/rules.yaml'')))
       (JObj [(''request'', JObj []), (''signals'', JObj [])]) = Inr res \<and>
     matchedRule res = None \<and> outcome res = JStr ''GREY_ZONE'')"
proof -
  let ?input = "JObj [(''request'', JObj []), (''signals'', JObj [])]"
  let ?c1 = "JObj [(''rules'', JArr []), (''defaults'', JObj [])]"
  let ?c2 = "JObj [(''rules'', JArr [])]"
  let ?env1 = "\<lparr>readFileSync = (\<lambda>path. Inr ''{rules: [], defaults: {}}''),
           yaml_load = (\<lambda>content. Inr ?c1)\<rparr>"
  let ?env2 = "\<lparr>readFileSync = (\<lambda>path. Inr ''rules: []''), yaml_load = (\<lambda>content. Inr ?c2)\<rparr>"
  have a1: "active_rules sample_runtime ?c1 = Inr []" by (simp add: concrete_load)
  have a2: "active_rules sample_runtime ?c2 = Inr []" by (simp add: concrete_load)
  have 1: "\<exists>res. evaluate sample_runtime
       (fst (loadRules sample_runtime ?env1 (new_RuleEngine ''config/rules.yaml''))) ?input = Inr res \<and>
     matchedRule res = None \<and> outcome res = JUndefined"
    using default_outcome_after_load [where env = ?env1 and this = "new_RuleEngine ''config/rules.yaml''"
        and config = ?c1 and rt = sample_runtime and rs = "[]" and input = ?input
        and content = "''{rules: [], defaults: {}}''"] a1
    by simp
  have 2: "\<exists>res. evaluate sample_runtime
       (fst (loadRules sample_runtime ?env2 (new_RuleEngine ''config/rules.yaml''))) ?input = Inr res \<and>
     matchedRule res = None \<and> outcome res = JStr ''GREY_ZONE''"
    using default_outcome_after_load [where env = ?env2 and this = "new_RuleEngine ''config/rules.yaml''"
        and config = ?c2 and rt = sample_runtime and rs = "[]" and input = ?input
        and content = "''rules: []''"] a2
    by (simp add: GREY_ZONE_def)
  from 1 2 show ?thesis by blast
qed

section \<open>Properties of the decision service\<close>

text \<open>
  C1. An input is valid exactly when it is a non-null object whose \<^verbatim>\<open>request\<close> and
  \<^verbatim>\<open>signals\<close> are non-null objects. On every other input \<^verbatim>\<open>decide\<close> does not throw and
  short-circuits, before any rule is evaluated and without asking the analyzer, to the
  error response: \<^verbatim>\<open>final\<close> is ERROR, \<^verbatim>\<open>source\<close> is SYSTEM_ERROR, the validation
  message is in \<^verbatim>\<open>error.message\<close> with type PROCESSING_ERROR, and the response has no
  rule evaluation.
\<close>

theorem invalid_input_is_error:
  "(validateInput input = Valid \<longleftrightarrow>
     truthy input \<and> typeof_object input \<and>
     truthy (prop_of input ''request'') \<and> typeof_object (prop_of input ''request'') \<and>
     truthy (prop_of input ''signals'') \<and> typeof_object (prop_of input ''signals'')) \<and>
   (validateInput input \<noteq> Valid \<longrightarrow>
      (\<exists>err. validateInput input = Invalid err \<and>
         decide rt this input requestId = (buildErrorResponse this err requestId, []) \<and>
         error (fst (decide rt this input requestId)) =
           Some \<lparr>error_message = err, error_type = ''PROCESSING_ERROR''\<rparr>) \<and>
      final (decision (fst (decide rt this input requestId))) = JStr ''ERROR'' \<and>
      decision_source (decision (fst (decide rt this input requestId))) = JStr ''SYSTEM_ERROR'' \<and>
      ruleEvaluation (fst (decide rt this input requestId)) = None)"
proof (intro conjI impI)
  show "validateInput input = Valid \<longleftrightarrow>
     truthy input \<and> typeof_object input \<and>
     truthy (prop_of input ''request'') \<and> typeof_object (prop_of input ''request'') \<and>
     truthy (prop_of input ''signals'') \<and> typeof_object (prop_of input ''signals'')"
    by (rule validateInput_Valid)
next
  assume "validateInput input \<noteq> Valid"
  then obtain err where e: "validateInput input = Invalid err"
    by (cases "validateInput input") auto
  then have d: "decide rt this input requestId = (buildErrorResponse this err requestId, [])"
    by (rule decide_invalid)
  show "\<exists>err. validateInput input = Invalid err \<and>
         decide rt this input requestId = (buildErrorResponse this err requestId, []) \<and>
         error (fst (decide rt this input requestId)) =
           Some \<lparr>error_message = err, error_type = ''PROCESSING_ERROR''\<rparr>"
    using e d by (simp add: buildErrorResponse_def)
  show "final (decision (fst (decide rt this input requestId))) = JStr ''ERROR''"
    using d by (simp add: buildErrorResponse_def)
  show "decision_source (decision (fst (decide rt this input requestId))) = JStr ''SYSTEM_ERROR''"
    using d by (simp add: buildErrorResponse_def)
  show "ruleEvaluation (fst (decide rt this input requestId)) = None"
    using d by (simp add: buildErrorResponse_def)
qed

theorem invalid_input_is_error_witness:
  "decide sample_runtime (sample_service (new_RuleEngine ''config/rules.yaml''))
     (JObj [(''request'', JObj [])]) ''req-1'' =
   (\<lparr>decision = \<lparr>final = JStr ''ERROR'', decision_source = JStr ''SYSTEM_ERROR'',
                  decision_confidence = JNull\<rparr>,
     ruleEvaluation = None, aiAnalysis = None,
     error = Some \<lparr>error_message = ''Input must contain a \"signals\" object'',
                   error_type = ''PROCESSING_ERROR''\<rparr>,
     meta_version = ''v1'', meta_requestId = ''req-1''\<rparr>, [])"
proof -
  let ?svc = "sample_service (new_RuleEngine ''config/rules.yaml'')"
  let ?input = "JObj [(''request'', JObj [])]"
  have v: "validateInput ?input = Invalid ''Input must contain a \"signals\" object''"
    by (simp add: validateInput_def)
  then have "validateInput ?input \<noteq> Valid" by simp
  then obtain err where "validateInput ?input = Invalid err"
    "decide sample_runtime ?svc ?input ''req-1'' = (buildErrorResponse ?svc err ''req-1'', [])"
    using invalid_input_is_error [of ?input sample_runtime ?svc "''req-1''"] by blast
  with v show ?thesis by (simp add: buildErrorResponse_def sample_service_def)
qed

text \<open>
  The inputs \<^verbatim>\<open>null\<close> and \<^verbatim>\<open>{request: {}}\<close> are not valid, and \<^verbatim>\<open>decide\<close> answers
  them with \<^verbatim>\<open>final\<close> ERROR and \<^verbatim>\<open>source\<close> SYSTEM_ERROR.
\<close>

theorem invalid_input_counterexample:
  "validateInput JNull \<noteq> Valid \<and>
   final (decision (fst (decide sample_runtime (sample_service (new_RuleEngine ''config/rules.yaml''))
      JNull ''req-1''))) = JStr ''ERROR'' \<and>
   decision_source (decision (fst (decide sample_runtime (sample_service (new_RuleEngine ''config/rules.yaml''))
      JNull ''req-1''))) = JStr ''SYSTEM_ERROR'' \<and>
   validateInput (JObj [(''request'', JObj [])]) \<noteq> Valid \<and>
   final (decision (fst (decide sample_runtime (sample_service (new_RuleEngine ''config/rules.yaml''))
      (JObj [(''request'', JObj [])]) ''req-2''))) = JStr ''ERROR'' \<and>
   decision_source (decision (fst (decide sample_runtime (sample_service (new_RuleEngine ''config/rules.yaml''))
      (JObj [(''request'', JObj [])]) ''req-2''))) = JStr ''SYSTEM_ERROR''"
  by (simp add: validateInput_def decide_def buildErrorResponse_def)



end
